theory Spec2Isabelle
  imports Complex_Main
begin

section \<open>Aalen's additive fitter: the data the code works on\<close>

text \<open>
  The development follows \<^verbatim>\<open>src/lifelines/fitters/aalen_additive_fitter.py\<close>.
  Floating-point numbers are idealised as real numbers; a cell of a pandas column may also
  hold one of the special values, which the code tests for before any arithmetic.
  A numpy array of shape (n, d) is a list of n rows; its column count is carried along,
  since an array with no rows still has one.
\<close>

type_synonym vec = "real list"
type_synonym matrix = "real list list"

record ndarray =
  ncols :: nat
  arr :: matrix

text \<open>
  A pandas frame of floats whose row labels are times (the cumulative matrices):
  row labels, column labels, rows. The covariate frame \<^verbatim>\<open>X\<close> is a \<open>design\<close>: its row labels
  play no part in the fit and are left out. The curves that a prediction returns have one
  row per time and one column per individual, in the order of the individuals given.
\<close>

record frame =
  index :: "real list"
  columns :: "string list"
  rows :: matrix

record design =
  names :: "string list"
  xrows :: matrix

record curves =
  timeline :: "real list"
  curve_rows :: matrix

text \<open>The exceptions the class can raise, and what it writes to the warning and print channels.\<close>

datatype error =
    ValueError string
  | AssertionError string
  | AttributeError string
  | NameError string
  | KeyError string
  | UnboundLocalError string
  | IndexError string
  | DataQualityError string
  | NonFiniteFloat

datatype event =
    ConvergenceWarning nat real
  | PrintIteration nat nat
  | PrintTerminatingEarly

text \<open>
  \<^verbatim>\<open>ridge_regression\<close> (imported as \<^verbatim>\<open>lr\<close>) lives in \<^verbatim>\<open>lifelines.utils\<close>, outside the
  file; the fitting loop is parametrised by it. It receives the design matrix, the outcome
  mask, the two penalties and the offset, and answers with the matrix R or raises
  \<^verbatim>\<open>LinAlgError\<close> (\<open>None\<close>).
\<close>

type_synonym solver = "matrix \<Rightarrow> bool list \<Rightarrow> real \<Rightarrow> real \<Rightarrow> vec \<Rightarrow> matrix option"

text \<open>A cell of a table: a finite number, NaN or an infinity.\<close>

datatype fl = Fin real | NaN | PosInf | NegInf

text \<open>
  The covariate frame as \<^verbatim>\<open>normalize\<close> answers it: after the division by the standard
  deviations a cell can be NaN or an infinity.
\<close>

record fdesign =
  fnames :: "string list"
  frows :: "fl list list"

text \<open>
  The caller's table: named columns of cells. \<open>numeric\<close> says whether the column's dtype is
  a boolean, integer or float one. Column names are taken to be distinct, and every column
  to have \<open>nrows\<close> cells.
\<close>

record column =
  cname :: string
  numeric :: bool
  cells :: "fl list"

record dataframe =
  nrows :: nat
  cols :: "column list"

text \<open>
  The attributes of a fitter object. An attribute that \<^verbatim>\<open>fit\<close> assigns is \<open>None\<close> until
  then. \<^verbatim>\<open>event_col\<close> and \<^verbatim>\<open>weights_col\<close> are also \<open>None\<close> when the caller passed Python's
  \<^verbatim>\<open>None\<close>. No method of the class assigns \<^verbatim>\<open>robust\<close>: it is present only if somebody set
  it from outside.
\<close>

record fitter =
  fit_intercept :: bool
  alpha :: real
  coef_penalizer :: real
  smoothing_penalizer :: real
  robust :: "bool option"
  time_fit_was_called :: "string option"
  duration_col :: "string option"
  event_col :: "string option"
  weights_col :: "string option"
  n_examples :: "nat option"
  durations :: "vec option"
  event_observed :: "bool list option"
  weights :: "fl list option"
  norm_std :: "fl list option"
  cumulative_hazards :: "frame option"
  cumulative_variance :: "frame option"
  confidence_intervals :: "(frame \<times> frame) option"
  predicted_hazards :: "vec option"

section \<open>The fitting loop\<close>

text \<open>The locals of \<^verbatim>\<open>_fit_model_to_data_batch\<close> that the loop reads and writes.
  \<open>loc_V\<close> is \<open>None\<close> while the name \<^verbatim>\<open>V\<close> is unbound; \<open>loc_i\<close> is the loop variable.\<close>

record loop_state =
  loc_X :: matrix
  loc_v :: vec
  loc_V :: "matrix option"
  loc_i :: "nat option"
  total_observed_exits :: int
  hazards :: matrix
  variance_hazards :: matrix
  emitted :: "event list"

datatype control = Continue | Break | Raise error

definition unique_death_times :: "vec \<Rightarrow> bool list \<Rightarrow> vec" where
  \<comment> \<open>\<^verbatim>\<open>np.sort(np.unique(T[E]))\<close>\<close>
  "unique_death_times T E = sort (remdups (map fst (filter snd (zip T E))))"

definition exits_mask :: "vec \<Rightarrow> real \<Rightarrow> bool list" where
  \<comment> \<open>\<^verbatim>\<open>T == t\<close>\<close>
  "exits_mask T t = map (\<lambda>x. x = t) T"

definition deaths_mask :: "vec \<Rightarrow> bool list \<Rightarrow> real \<Rightarrow> bool list" where
  \<comment> \<open>\<^verbatim>\<open>exits & E\<close>\<close>
  "deaths_mask T E t = map2 (\<and>) (exits_mask T t) E"

definition select :: "bool list \<Rightarrow> 'a list \<Rightarrow> 'a list" where
  \<comment> \<open>indexing with a boolean array\<close>
  "select msk xs = map snd (filter fst (zip msk xs))"

definition squared_sum :: "bool list \<Rightarrow> vec \<Rightarrow> real" where
  \<comment> \<open>one entry of \<^verbatim>\<open>(V[:, deaths] ** 2).sum(1)\<close>\<close>
  "squared_sum msk row = sum_list (map (\<lambda>x. x ^ 2) (select msk row))"

definition zero_rows :: "bool list \<Rightarrow> matrix \<Rightarrow> matrix" where
  \<comment> \<open>\<^verbatim>\<open>X[exits, :] = 0\<close>\<close>
  "zero_rows msk M = map2 (\<lambda>m row. if m then map (\<lambda>_. 0) row else row) msk M"

definition count_true :: "bool list \<Rightarrow> int" where
  \<comment> \<open>\<^verbatim>\<open>exits.sum()\<close>\<close>
  "count_true msk = int (length (filter id msk))"

definition zeros :: "nat \<Rightarrow> vec" where
  "zeros d = replicate d 0"

definition zeros2 :: "nat \<Rightarrow> nat \<Rightarrow> matrix" where
  "zeros2 k d = replicate k (zeros d)"

definition say :: "bool \<Rightarrow> event \<Rightarrow> loop_state \<Rightarrow> loop_state" where
  \<comment> \<open>\<^verbatim>\<open>if show_progress: print(...)\<close>\<close>
  "say show_progress e s = (if show_progress then s\<lparr>emitted := emitted s @ [e]\<rparr> else s)"

definition solve_step :: "solver \<Rightarrow> fitter \<Rightarrow> nat \<Rightarrow> bool list \<Rightarrow> nat \<Rightarrow> real \<Rightarrow> loop_state \<Rightarrow> loop_state" where
  \<comment> \<open>the \<^verbatim>\<open>try ... except LinAlgError\<close> block\<close>
  "solve_step lr self d deaths i t s =
     (case lr (loc_X s) deaths (coef_penalizer self) (smoothing_penalizer self) (loc_v s) of
        Some R \<Rightarrow> s\<lparr>loc_V := Some (map butlast R), loc_v := map last R\<rparr>
      | None \<Rightarrow> s\<lparr>emitted := emitted s @ [ConvergenceWarning i t], loc_v := zeros d\<rparr>)"

definition loop_body ::
  "solver \<Rightarrow> fitter \<Rightarrow> vec \<Rightarrow> bool list \<Rightarrow> bool \<Rightarrow> nat \<Rightarrow> nat \<Rightarrow> nat \<Rightarrow> nat \<Rightarrow> real \<Rightarrow>
   loop_state \<Rightarrow> control \<times> loop_state" where
  "loop_body lr self T E show_progress n d n_deaths i t s0 =
     (let exits = exits_mask T t;
          deaths = deaths_mask T E t;
          s1 = solve_step lr self d deaths i t (s0\<lparr>loc_i := Some i\<rparr>);
          s2 = s1\<lparr>hazards := (hazards s1)[i := loc_v s1]\<rparr>
      in case loc_V s2 of
           None \<Rightarrow> (Raise (UnboundLocalError ''V''), s2)
         | Some Vm \<Rightarrow>
             (let s3 = s2\<lparr>variance_hazards := (variance_hazards s2)[i := map (squared_sum deaths) Vm]\<rparr>;
                  s4 = s3\<lparr>loc_X := zero_rows exits (loc_X s3)\<rparr>;
                  s5 = say show_progress (PrintIteration (i + 1) n_deaths) s4
              in if 3 * (int d - 1) \<ge> int n - total_observed_exits s5
                 then (Break, say show_progress PrintTerminatingEarly s5)
                 else (Continue,
                       s5\<lparr>total_observed_exits := total_observed_exits s5 + count_true exits\<rparr>)))"

fun for_loop ::
  "solver \<Rightarrow> fitter \<Rightarrow> vec \<Rightarrow> bool list \<Rightarrow> bool \<Rightarrow> nat \<Rightarrow> nat \<Rightarrow> nat \<Rightarrow> (nat \<times> real) list \<Rightarrow>
   loop_state \<Rightarrow> error option \<times> loop_state" where
  "for_loop lr self T E show_progress n d n_deaths [] s = (None, s)"
| "for_loop lr self T E show_progress n d n_deaths ((i, t) # rest) s =
     (case loop_body lr self T E show_progress n d n_deaths i t s of
        (Raise e, s') \<Rightarrow> (Some e, s')
      | (Break, s') \<Rightarrow> (None, s')
      | (Continue, s') \<Rightarrow> for_loop lr self T E show_progress n d n_deaths rest s')"

definition initial_state :: "matrix \<Rightarrow> nat \<Rightarrow> nat \<Rightarrow> loop_state" where
  "initial_state Xm n_deaths d =
     \<lparr>loc_X = Xm, loc_v = zeros d, loc_V = None, loc_i = None, total_observed_exits = 0,
      hazards = zeros2 n_deaths d, variance_hazards = zeros2 n_deaths d, emitted = []\<rparr>"

definition run_loop ::
  "solver \<Rightarrow> fitter \<Rightarrow> ndarray \<Rightarrow> vec \<Rightarrow> bool list \<Rightarrow> bool \<Rightarrow> error option \<times> loop_state" where
  \<comment> \<open>the body of \<^verbatim>\<open>_fit_model_to_data_batch\<close> up to its \<^verbatim>\<open>return\<close>, with all locals\<close>
  "run_loop lr self Xa T E show_progress =
     (let n = length (arr Xa); d = ncols Xa;
          times = unique_death_times T E;
          n_deaths = length times
      in for_loop lr self T E show_progress n d n_deaths (enumerate 0 times)
           (initial_state (arr Xa) n_deaths d))"

definition steps_completed :: "loop_state \<Rightarrow> nat" where
  \<comment> \<open>how many times the loop body was entered: one more than the last value of \<^verbatim>\<open>i\<close>\<close>
  "steps_completed s = (case loc_i s of None \<Rightarrow> 0 | Some i \<Rightarrow> Suc i)"

definition fit_model_to_data_batch ::
  "solver \<Rightarrow> fitter \<Rightarrow> ndarray \<Rightarrow> vec \<Rightarrow> bool list \<Rightarrow> fl list \<Rightarrow> bool \<Rightarrow>
   (error + matrix \<times> matrix) \<times> event list" where
  "fit_model_to_data_batch lr self Xa T E wts show_progress =
     (case run_loop lr self Xa T E show_progress of
        (Some e, s) \<Rightarrow> (Inl e, emitted s)
      | (None, s) \<Rightarrow> (Inr (hazards s, variance_hazards s), emitted s))"

fun running_sum :: "vec \<Rightarrow> matrix \<Rightarrow> matrix" where
  "running_sum acc [] = []"
| "running_sum acc (r # rs) = (let a = map2 (+) acc r in a # running_sum a rs)"

definition cumsum :: "matrix \<Rightarrow> matrix" where
  \<comment> \<open>\<^verbatim>\<open>DataFrame.cumsum()\<close>: running sums down each column\<close>
  "cumsum M = (case M of [] \<Rightarrow> [] | r # rs \<Rightarrow> r # running_sum r rs)"

definition fit_model ::
  "solver \<Rightarrow> fitter \<Rightarrow> design \<Rightarrow> vec \<Rightarrow> bool list \<Rightarrow> fl list \<Rightarrow> bool \<Rightarrow>
   (error + frame \<times> frame) \<times> event list" where
  "fit_model lr self Xf T E wts show_progress =
     (let cols = names Xf;
          idx = unique_death_times T E
      in case fit_model_to_data_batch lr self \<lparr>ncols = length cols, arr = xrows Xf\<rparr> T E wts show_progress of
           (Inl e, evs) \<Rightarrow> (Inl e, evs)
         | (Inr (hz, vz), evs) \<Rightarrow>
             (Inr (\<lparr>index = idx, columns = cols, rows = cumsum hz\<rparr>,
                   \<lparr>index = idx, columns = cols, rows = cumsum vz\<rparr>), evs))"


section \<open>Helpers from outside the file\<close>

text \<open>
  What the class takes from the rest of the package and from the clock: the solver,
  \<^verbatim>\<open>normalize\<close>, \<^verbatim>\<open>inv_normal_cdf\<close> and the text of \<^verbatim>\<open>datetime.utcnow()\<close>.
\<close>

record env =
  env_lr :: solver
  env_normalize :: "design \<Rightarrow> real \<Rightarrow> fl list \<Rightarrow> fdesign"
  env_inv_normal_cdf :: "real \<Rightarrow> real"
  env_utcnow :: string

definition is_fin :: "fl \<Rightarrow> bool" where
  "is_fin c = (case c of Fin r \<Rightarrow> True | _ \<Rightarrow> False)"

definition pass_for_numeric_dtypes_or_raise :: "dataframe \<Rightarrow> error option" where
  \<comment> \<open>Modelled from the spec: \<^verbatim>\<open>lifelines.utils.pass_for_numeric_dtypes_or_raise\<close> is not in the
      file; the spec has "all covariate columns numeric", a fatal data-quality error otherwise.\<close>
  "pass_for_numeric_dtypes_or_raise df =
     (if list_all numeric (cols df) then None
      else Some (DataQualityError ''nonnumeric columns''))"

definition check_nans_or_infs :: "fl list \<Rightarrow> error option" where
  \<comment> \<open>Modelled from the spec: \<^verbatim>\<open>lifelines.utils.check_nans_or_infs\<close> is not in the file; the
      spec has "no NaN/Inf anywhere in covariates, duration, or event fields", a fatal
      data-quality error otherwise.\<close>
  "check_nans_or_infs cs =
     (if list_all is_fin cs then None else Some (DataQualityError ''NaNs or Infs''))"

section \<open>Construction and preprocessing\<close>

definition init :: "fitter \<Rightarrow> bool \<Rightarrow> real \<Rightarrow> real \<Rightarrow> real \<Rightarrow> error option \<times> fitter" where
  \<comment> \<open>\<^verbatim>\<open>__init__\<close>, on the object it is given\<close>
  "init self fi a cp sp =
     (let self' = self\<lparr>fit_intercept := fi, alpha := a, coef_penalizer := cp,
                       smoothing_penalizer := sp\<rparr>
      in if \<not> (0 < a \<and> a \<le> 1) then
           (Some (ValueError ''alpha parameter must be between 0 and 1.''), self')
         else if cp < 0 \<or> sp < 0 then
           (Some (ValueError ''penalizer parameters must be >= 0.''), self')
         else (None, self'))"

definition blank :: fitter where
  \<comment> \<open>the object before \<^verbatim>\<open>__init__\<close> runs: no attribute is set; the first four fields are
      placeholders that \<open>init\<close> overwrites before anything reads them\<close>
  "blank = \<lparr>fit_intercept = True, alpha = 0, coef_penalizer = 0, smoothing_penalizer = 0,
     robust = None, time_fit_was_called = None, duration_col = None, event_col = None,
     weights_col = None, n_examples = None, durations = None, event_observed = None,
     weights = None, norm_std = None, cumulative_hazards = None, cumulative_variance = None,
     confidence_intervals = None, predicted_hazards = None\<rparr>"

definition new_fitter :: "bool \<Rightarrow> real \<Rightarrow> real \<Rightarrow> real \<Rightarrow> error + fitter" where
  \<comment> \<open>the expression \<^verbatim>\<open>AalenAdditiveFitter(fit_intercept, alpha, coef_penalizer, smoothing_penalizer)\<close>\<close>
  "new_fitter fi a cp sp =
     (case init blank fi a cp sp of (Some e, _) \<Rightarrow> Inl e | (None, self) \<Rightarrow> Inr self)"

fun fl_le :: "fl \<Rightarrow> fl \<Rightarrow> bool" where
  "fl_le _ NaN = True"
| "fl_le NaN _ = False"
| "fl_le NegInf _ = True"
| "fl_le _ NegInf = False"
| "fl_le _ PosInf = True"
| "fl_le PosInf _ = False"
| "fl_le (Fin a) (Fin b) = (a \<le> b)"

fun insert_key :: "fl \<times> nat \<Rightarrow> (fl \<times> nat) list \<Rightarrow> (fl \<times> nat) list" where
  "insert_key x [] = [x]"
| "insert_key x (y # ys) = (if fl_le (fst x) (fst y) then x # y # ys else y # insert_key x ys)"

definition argsort :: "fl list \<Rightarrow> nat list" where
  \<comment> \<open>the row order of \<^verbatim>\<open>sort_values\<close>: ascending, NaN last; rows with equal keys keep
      their order (pandas' default sort promises no order among them)\<close>
  "argsort ks = map snd (foldr insert_key (zip ks [0..<length ks]) [])"

definition sort_values :: "string \<Rightarrow> dataframe \<Rightarrow> error + dataframe" where
  "sort_values key df =
     (case find (\<lambda>c. cname c = key) (cols df) of
        None \<Rightarrow> Inl (KeyError key)
      | Some k \<Rightarrow>
          (let perm = argsort (cells k)
           in Inr (df\<lparr>cols := map (\<lambda>c. c\<lparr>cells := map (\<lambda>i. cells c ! i) perm\<rparr>) (cols df)\<rparr>)))"

definition pop :: "string \<Rightarrow> dataframe \<Rightarrow> error + fl list \<times> dataframe" where
  "pop key df =
     (case find (\<lambda>c. cname c = key) (cols df) of
        None \<Rightarrow> Inl (KeyError key)
      | Some k \<Rightarrow> Inr (cells k, df\<lparr>cols := filter (\<lambda>c. cname c \<noteq> key) (cols df)\<rparr>))"

definition pop_or_ones :: "string option \<Rightarrow> dataframe \<Rightarrow> error + fl list \<times> dataframe" where
  \<comment> \<open>\<^verbatim>\<open>df.pop(col) if col is not None else pd.Series(np.ones(n), ...)\<close>\<close>
  "pop_or_ones col df =
     (case col of None \<Rightarrow> Inr (replicate (nrows df) (Fin 1), df) | Some c \<Rightarrow> pop c df)"

definition trunc :: "real \<Rightarrow> int" where
  \<comment> \<open>the whole part of a number: rounding towards zero\<close>
  "trunc r = (if 0 \<le> r then \<lfloor>r\<rfloor> else \<lceil>r\<rceil>)"

definition astype_int :: "real \<Rightarrow> int" where
  \<comment> \<open>\<^verbatim>\<open>astype(int)\<close> on a finite float, a cast to 64 bits: towards zero when the whole part
      is in the range. Outside the range the cast is left open by C; numpy answers with the
      least 64-bit integer on the usual platforms. Whatever 64-bit integer it answers with, it
      is not the number cast.\<close>
  "astype_int r =
     (if - (2 ^ 63) \<le> trunc r \<and> trunc r < 2 ^ 63 then trunc r else - (2 ^ 63))"

definition non_integral :: "fl \<Rightarrow> bool" where
  \<comment> \<open>one entry of \<^verbatim>\<open>W.astype(int) != W\<close>\<close>
  "non_integral c = (case c of Fin r \<Rightarrow> real_of_int (astype_int r) \<noteq> r | _ \<Rightarrow> True)"

definition non_positive :: "fl \<Rightarrow> bool" where
  \<comment> \<open>one entry of \<^verbatim>\<open>W <= 0\<close>\<close>
  "non_positive c = (case c of Fin r \<Rightarrow> r \<le> 0 | NegInf \<Rightarrow> True | _ \<Rightarrow> False)"

definition check_weights :: "fitter \<Rightarrow> fl list \<Rightarrow> error option" where
  \<comment> \<open>"check to make sure their weights are okay". \<^verbatim>\<open>if self.weights_col:\<close> is false for
      \<^verbatim>\<open>None\<close> and for the empty string. pandas refuses to cast NaN or an infinity to int with
      a ValueError. \<^verbatim>\<open>StatisticalWarning\<close> is not among the module's imports, so naming it is a
      NameError.\<close>
  "check_weights self W =
     (case weights_col self of
        None \<Rightarrow> None
      | Some c \<Rightarrow>
          (if c = [] then None
           else if \<not> list_all is_fin W then
             Some (ValueError ''Cannot convert non-finite values (NA or inf) to integer'')
           else if list_ex non_integral W \<and> robust self = None then
             Some (AttributeError ''robust'')
           else if list_ex non_integral W \<and> robust self = Some False then
             Some (NameError ''StatisticalWarning'')
           else if list_ex non_positive W then
             Some (ValueError (''values in weight column '' @ c @ '' must be positive.''))
           else None))"

definition check_values :: "dataframe \<Rightarrow> fl list \<Rightarrow> fl list \<Rightarrow> error option" where
  \<comment> \<open>\<^verbatim>\<open>_check_values\<close>\<close>
  "check_values df T E =
     (case pass_for_numeric_dtypes_or_raise df of Some e \<Rightarrow> Some e | None \<Rightarrow>
      case check_nans_or_infs T of Some e \<Rightarrow> Some e | None \<Rightarrow>
      case check_nans_or_infs E of Some e \<Rightarrow> Some e | None \<Rightarrow>
      check_nans_or_infs (concat (map cells (cols df))))"

definition add_baseline :: "fitter \<Rightarrow> dataframe \<Rightarrow> error + dataframe" where
  \<comment> \<open>\<^verbatim>\<open>if self.fit_intercept: assert ...; df["baseline"] = 1.0\<close>\<close>
  "add_baseline self df =
     (if fit_intercept self then
        (if ''baseline'' \<in> set (map cname (cols df)) then
           Inl (AssertionError ''baseline is an internal lifelines column, please rename your column first.'')
         else Inr (df\<lparr>cols := cols df @
                 [\<lparr>cname = ''baseline'', numeric = True, cells = replicate (nrows df) (Fin 1)\<rparr>]\<rparr>))
      else Inr df)"

definition fin_val :: "fl \<Rightarrow> real" where
  \<comment> \<open>\<^verbatim>\<open>astype(float)\<close>; the cells it is applied to have passed \<open>check_nans_or_infs\<close>\<close>
  "fin_val c = (case c of Fin r \<Rightarrow> r | _ \<Rightarrow> 0)"

definition astype_bool :: "fl \<Rightarrow> bool" where
  "astype_bool c = (c \<noteq> Fin 0)"

definition to_design :: "dataframe \<Rightarrow> design" where
  \<comment> \<open>\<^verbatim>\<open>df.astype(float)\<close>, read row by row\<close>
  "to_design df =
     \<lparr>names = map cname (cols df),
      xrows = map (\<lambda>i. map (\<lambda>c. fin_val (cells c ! i)) (cols df)) [0..<nrows df]\<rparr>"

definition preprocess_dataframe ::
  "fitter \<Rightarrow> dataframe \<Rightarrow> error + design \<times> vec \<times> bool list \<times> fl list" where
  "preprocess_dataframe self df0 =
     (case duration_col self of None \<Rightarrow> Inl (AttributeError ''duration_col'') | Some dc \<Rightarrow>
      case sort_values dc df0 of Inl e \<Rightarrow> Inl e | Inr df1 \<Rightarrow>
      case pop dc df1 of Inl e \<Rightarrow> Inl e | Inr (T, df2) \<Rightarrow>
      case pop_or_ones (event_col self) df2 of Inl e \<Rightarrow> Inl e | Inr (E, df3) \<Rightarrow>
      case pop_or_ones (weights_col self) df3 of Inl e \<Rightarrow> Inl e | Inr (W, df4) \<Rightarrow>
      case check_weights self W of Some e \<Rightarrow> Inl e | None \<Rightarrow>
      case check_values df4 T E of Some e \<Rightarrow> Inl e | None \<Rightarrow>
      case add_baseline self df4 of Inl e \<Rightarrow> Inl e | Inr df5 \<Rightarrow>
      Inr (to_design df5, map fin_val T, map astype_bool E, W))"

section \<open>Prediction\<close>

datatype covariates = DataFrameX design | ArrayX ndarray

definition dot :: "vec \<Rightarrow> vec \<Rightarrow> real" where
  "dot xs ys = sum_list (map2 (*) xs ys)"

definition index_of :: "'a \<Rightarrow> 'a list \<Rightarrow> nat" where
  "index_of c xs = length (takeWhile (\<lambda>x. x \<noteq> c) xs)"

definition select_columns :: "string list \<Rightarrow> design \<Rightarrow> error + matrix" where
  \<comment> \<open>\<^verbatim>\<open>X[order].values\<close>\<close>
  "select_columns order Xf =
     (case find (\<lambda>c. c \<notin> set (names Xf)) order of
        Some c \<Rightarrow> Inl (KeyError c)
      | None \<Rightarrow> Inr (map (\<lambda>row. map (\<lambda>c. row ! (index_of c (names Xf))) order) (xrows Xf)))"

definition covariate_matrix :: "fitter \<Rightarrow> frame \<Rightarrow> covariates \<Rightarrow> error + nat \<times> matrix" where
  \<comment> \<open>\<^verbatim>\<open>X_\<close> before the intercept is appended, with its column count: the training columns
      in their order, without the intercept, when \<^verbatim>\<open>X\<close> is a frame; \<^verbatim>\<open>X\<close> itself when it is
      an array\<close>
  "covariate_matrix self ch X =
     (case X of
        DataFrameX Xf \<Rightarrow>
          (if fit_intercept self then
             (if ''baseline'' \<in> set (columns ch) then
                map_sum id (\<lambda>M. (length (filter (\<lambda>c. c \<noteq> ''baseline'') (columns ch)), M))
                  (select_columns (filter (\<lambda>c. c \<noteq> ''baseline'') (columns ch)) Xf)
              else Inl (KeyError ''baseline''))
           else map_sum id (\<lambda>M. (length (columns ch), M)) (select_columns (columns ch) Xf))
      | ArrayX a \<Rightarrow> Inr (ncols a, arr a))"

definition predict_cumulative_hazard :: "fitter \<Rightarrow> covariates \<Rightarrow> error + curves" where
  "predict_cumulative_hazard self X =
     (case cumulative_hazards self of
        None \<Rightarrow> Inl (AttributeError ''cumulative_hazards_'')
      | Some ch \<Rightarrow>
          (case covariate_matrix self ch X of
             Inl e \<Rightarrow> Inl e
           | Inr (width, M) \<Rightarrow>
               (let M1 = (if fit_intercept self then map (\<lambda>row. row @ [1]) M else M);
                    width1 = (if fit_intercept self then width + 1 else width)
                in if width1 \<noteq> length (columns ch) then Inl (ValueError ''shapes not aligned'')
                   else Inr \<lparr>timeline = index ch,
                             curve_rows = map (\<lambda>h. map (\<lambda>x. dot h x) M1) (rows ch)\<rparr>)))"


section \<open>Fitting\<close>

definition column_of :: "nat \<Rightarrow> matrix \<Rightarrow> vec" where
  "column_of j M = map (\<lambda>row. row ! j) M"

definition std_col :: "vec \<Rightarrow> fl" where
  \<comment> \<open>pandas' \<^verbatim>\<open>std\<close> of one column: the sample standard deviation, NaN below two rows\<close>
  "std_col xs =
     (if length xs < 2 then NaN
      else (let m = sum_list xs / real (length xs)
            in Fin (sqrt (sum_list (map (\<lambda>x. (x - m) ^ 2) xs) / real (length xs - 1)))))"

definition std0 :: "design \<Rightarrow> fl list" where
  \<comment> \<open>\<^verbatim>\<open>X.std(0)\<close>\<close>
  "std0 Xf = map (\<lambda>j. std_col (column_of j (xrows Xf))) [0..<length (names Xf)]"

definition fl_less :: "fl \<Rightarrow> real \<Rightarrow> bool" where
  \<comment> \<open>a float cell compared with a finite bound; any comparison with NaN is false\<close>
  "fl_less c b = (case c of Fin r \<Rightarrow> r < b | NegInf \<Rightarrow> True | _ \<Rightarrow> False)"

definition fix_norm_std :: "fitter \<Rightarrow> design \<Rightarrow> fl list \<Rightarrow> fl list" where
  \<comment> \<open>"if we included an intercept, we need to fix not divide by zero."\<close>
  "fix_norm_std self Xf sd =
     (if fit_intercept self
      then map2 (\<lambda>c s. if c = ''baseline'' then Fin 1 else s) (names Xf) sd
      else map (\<lambda>s. if fl_less s (1 / 10 ^ 8) then Fin 1 else s) sd)"

definition fl_div :: "real \<Rightarrow> fl \<Rightarrow> fl" where
  \<comment> \<open>a finite float divided by a float cell, as IEEE 754 has it (a zero divisor is +0)\<close>
  "fl_div x c =
     (case c of
        Fin s \<Rightarrow> (if s \<noteq> 0 then Fin (x / s)
                  else if x = 0 then NaN else if 0 < x then PosInf else NegInf)
      | NaN \<Rightarrow> NaN
      | PosInf \<Rightarrow> Fin 0
      | NegInf \<Rightarrow> Fin 0)"

definition finite_rows :: "fl list list \<Rightarrow> matrix option" where
  \<comment> \<open>the entries as real numbers, when none is NaN or an infinity\<close>
  "finite_rows M = (if list_all (list_all is_fin) M then Some (map (map fin_val) M) else None)"

definition finite_design :: "fdesign \<Rightarrow> design option" where
  "finite_design Xn = map_option (\<lambda>M. \<lparr>names = fnames Xn, xrows = M\<rparr>) (finite_rows (frows Xn))"

definition divide_columns :: "frame \<Rightarrow> fl list \<Rightarrow> frame option" where
  \<comment> \<open>\<^verbatim>\<open>frame /= self._norm_std\<close>: each column by the entry with its label; \<open>None\<close> when a
      quotient is NaN or an infinity. A frame with no rows has no quotient.\<close>
  "divide_columns F sd =
     map_option (\<lambda>M. F\<lparr>rows := M\<rparr>) (finite_rows (map (\<lambda>row. map2 fl_div row sd) (rows F)))"

definition no_rows :: "string list \<Rightarrow> frame" where
  \<comment> \<open>\<^verbatim>\<open>pd.DataFrame(np.zeros((0, d)), columns=columns, index=[]).cumsum()\<close>\<close>
  "no_rows cs = \<lparr>index = [], columns = cs, rows = []\<rparr>"

definition fit_model_normalized ::
  "solver \<Rightarrow> fitter \<Rightarrow> fdesign \<Rightarrow> vec \<Rightarrow> bool list \<Rightarrow> fl list \<Rightarrow> bool \<Rightarrow>
   (error + frame \<times> frame) \<times> event list" where
  \<comment> \<open>\<^verbatim>\<open>self._fit_model(normalize(X, 0, self._norm_std), ...)\<close>. When a divisor was NaN or zero
      the normalised frame holds NaN or infinities. \<^verbatim>\<open>_fit_model\<close> reads the entries for the
      first time when it calls the solver, in the first pass of the loop, before anything is
      warned or printed: there the real-number model stops, with \<open>NonFiniteFloat\<close>. With no
      death time there is no pass and no entry is read: the arrays are
      \<^verbatim>\<open>np.zeros((0, d))\<close> and both frames have the columns and no rows.\<close>
  "fit_model_normalized lr self Xn T E wts show_progress =
     (case finite_design Xn of
        Some Xf \<Rightarrow> fit_model lr self Xf T E wts show_progress
      | None \<Rightarrow>
          (if unique_death_times T E = []
           then (Inr (no_rows (fnames Xn), no_rows (fnames Xn)), [])
           else (Inl NonFiniteFloat, [])))"

definition compute_confidence_intervals :: "env \<Rightarrow> fitter \<Rightarrow> error + frame \<times> frame" where
  "compute_confidence_intervals env self =
     (case (cumulative_hazards self, cumulative_variance self) of
        (Some ch, Some cv) \<Rightarrow>
          (let alpha2 = env_inv_normal_cdf env (1 - (1 - alpha self) / 2);
               std_error = map (map sqrt) (rows cv);
               bound = (\<lambda>sgn. map2 (map2 (\<lambda>h se. h + sgn * alpha2 * se)) (rows ch) std_error)
           in Inr (ch\<lparr>rows := bound (- 1)\<rparr>, ch\<lparr>rows := bound 1\<rparr>))
      | _ \<Rightarrow> Inl (AttributeError ''cumulative_variance_''))"

text \<open>
  \<^verbatim>\<open>fit\<close> returns the exception raised, if any, the fitter as the call leaves it, and what
  was warned and printed. A standard deviation can be NaN (fewer than two rows) or zero (a
  constant column). Where numpy would then compute with a NaN or an infinity, the
  real-number model has no value to go on with and stops with \<open>NonFiniteFloat\<close>, which is
  not an exception of the program; where no such value is computed, as with no death time,
  the model goes on as the code does.
\<close>

definition begin_fit ::
  "env \<Rightarrow> fitter \<Rightarrow> dataframe \<Rightarrow> string \<Rightarrow> string option \<Rightarrow> string option \<Rightarrow> fitter" where
  \<comment> \<open>the assignments that open \<^verbatim>\<open>fit\<close>, before \<^verbatim>\<open>_preprocess_dataframe\<close> is called\<close>
  "begin_fit env self df dcol ecol wcol =
     self\<lparr>time_fit_was_called := Some (env_utcnow env),
          duration_col := Some dcol, event_col := ecol, weights_col := wcol,
          n_examples := Some (nrows df)\<rparr>"

definition fit_arrays ::
  "env \<Rightarrow> fitter \<Rightarrow> design \<Rightarrow> vec \<Rightarrow> bool list \<Rightarrow> fl list \<Rightarrow> bool \<Rightarrow>
   error option \<times> fitter \<times> event list" where
  \<comment> \<open>the rest of \<^verbatim>\<open>fit\<close>, from \<^verbatim>\<open>self.durations = T.copy()\<close> on\<close>
  "fit_arrays env self1 Xf T E W show_progress =
     (let self2 = self1\<lparr>durations := Some T, event_observed := Some E, weights := Some W\<rparr>;
          sd = fix_norm_std self2 Xf (std0 Xf);
          self3 = self2\<lparr>norm_std := Some sd\<rparr>
      in case fit_model_normalized (env_lr env) self3 (env_normalize env Xf 0 sd) T E W show_progress of
           (Inl e, evs) \<Rightarrow> (Some e, self3, evs)
         | (Inr (ch, cv), evs) \<Rightarrow>
             (let self3a = self3\<lparr>cumulative_hazards := Some ch, cumulative_variance := Some cv\<rparr>
              in case divide_columns ch sd of
                   None \<Rightarrow> (Some NonFiniteFloat, self3a, evs)
                 | Some ch' \<Rightarrow>
              case divide_columns cv sd of
                   None \<Rightarrow> (Some NonFiniteFloat, self3a\<lparr>cumulative_hazards := Some ch'\<rparr>, evs)
                 | Some cv' \<Rightarrow>
                  (let self4 = self3\<lparr>cumulative_hazards := Some ch', cumulative_variance := Some cv'\<rparr>
                   in case compute_confidence_intervals env self4 of
                        Inl e \<Rightarrow> (Some e, self4, evs)
                      | Inr ci \<Rightarrow>
                          (let self5 = self4\<lparr>confidence_intervals := Some ci\<rparr>
                           in case predict_cumulative_hazard self5 (DataFrameX Xf) of
                                Inl e \<Rightarrow> (Some e, self5, evs)
                              | Inr P \<Rightarrow>
                                  (if curve_rows P = [] then
                                     (Some (IndexError ''single positional indexer is out-of-bounds''),
                                      self5, evs)
                                   else (None, self5\<lparr>predicted_hazards := Some (last (curve_rows P))\<rparr>,
                                         evs))))))"

definition fit ::
  "env \<Rightarrow> fitter \<Rightarrow> dataframe \<Rightarrow> string \<Rightarrow> string option \<Rightarrow> string option \<Rightarrow> bool \<Rightarrow>
   error option \<times> fitter \<times> event list" where
  "fit env self df dcol ecol wcol show_progress =
     (let self1 = begin_fit env self df dcol ecol wcol
      in case preprocess_dataframe self1 df of
           Inl e \<Rightarrow> (Some e, self1, [])
         | Inr (Xf, T, E, W) \<Rightarrow> fit_arrays env self1 Xf T E W show_progress)"

section \<open>A solver and an environment to run the code on examples\<close>

definition transpose_cols :: "nat \<Rightarrow> matrix \<Rightarrow> matrix" where
  "transpose_cols d M = map (\<lambda>j. column_of j M) [0..<d]"

definition find_pivot :: "nat \<Rightarrow> matrix \<Rightarrow> nat option" where
  "find_pivot k M = find (\<lambda>p. M ! p ! k \<noteq> 0) [k..<length M]"

definition reduce_col :: "nat \<Rightarrow> nat \<Rightarrow> matrix \<Rightarrow> matrix" where
  "reduce_col k p M =
     (let M' = M[k := M ! p, p := M ! k];
          prow = map (\<lambda>x. x / (M ! p ! k)) (M ! p)
      in map (\<lambda>(r, row). if r = k then prow else map2 (\<lambda>a b. a - (row ! k) * b) row prow)
           (enumerate 0 M'))"

fun gauss_jordan :: "nat \<Rightarrow> nat \<Rightarrow> matrix \<Rightarrow> matrix option" where
  "gauss_jordan k 0 M = Some M"
| "gauss_jordan k (Suc j) M =
     (case find_pivot k M of None \<Rightarrow> None
      | Some p \<Rightarrow> gauss_jordan (Suc k) j (reduce_col k p M))"

definition ridge_regression :: solver where
  \<comment> \<open>Modelled from the spec: \<^verbatim>\<open>lifelines.utils.ridge_regression\<close> is not in the file. The spec
      has: the last column of R is the coefficient estimate of the least-squares problem with
      an L2 penalty c1 on the coefficients and c2 on their distance to the offset, the leading
      columns are inv(Xt X + penalty) Xt, where Xt is the transpose of X, and a singular
      system with both penalties zero is a \<^verbatim>\<open>LinAlgError\<close>. So R solves
      (Xt X + (c1 + c2) I) R = [Xt | Xt y + c2 offset], here by Gauss-Jordan elimination.\<close>
  "ridge_regression Xm y c1 c2 offset =
     (let d = length offset;
          Xt = transpose_cols d Xm;
          A = map (\<lambda>(i, ci). map (\<lambda>(j, cj). dot ci cj + (if i = j then c1 + c2 else 0))
                     (enumerate 0 Xt)) (enumerate 0 Xt);
          b = map2 (\<lambda>ci off. dot ci (map (\<lambda>m. if m then 1 else 0) y) + c2 * off) Xt offset;
          M = map2 (\<lambda>ci bi. ci @ [bi]) Xt b
      in map_option (map (drop d)) (gauss_jordan 0 d (map2 (@) A M)))"

definition plain_normalize :: "design \<Rightarrow> real \<Rightarrow> fl list \<Rightarrow> fdesign" where
  \<comment> \<open>Modelled from the spec: \<^verbatim>\<open>lifelines.utils.normalize\<close> is not in the file. The spec has
      the standard deviations "used to rescale coefficients back after fitting"; the call
      \<^verbatim>\<open>normalize(X, 0, self._norm_std)\<close> subtracts the mean 0 and divides each column
      by its deviation.\<close>
  "plain_normalize Xf m sd =
     \<lparr>fnames = names Xf, frows = map (\<lambda>row. map2 (\<lambda>x s. fl_div (x - m) s) row sd) (xrows Xf)\<rparr>"

definition example_env :: env where
  \<comment> \<open>the environment the examples run in; the quantile function is the constant 1.96
      (the 0.975 quantile of the standard normal, to two places)\<close>
  "example_env = \<lparr>env_lr = ridge_regression, env_normalize = plain_normalize,
     env_inv_normal_cdf = (\<lambda>p. 196 / 100), env_utcnow = ''2019-01-01 00:00:00 UTC''\<rparr>"

definition default_fitter :: fitter where
  \<comment> \<open>\<^verbatim>\<open>AalenAdditiveFitter()\<close>\<close>
  "default_fitter = blank\<lparr>fit_intercept := True, alpha := 95 / 100\<rparr>"

definition no_intercept_fitter :: fitter where
  \<comment> \<open>\<^verbatim>\<open>AalenAdditiveFitter(fit_intercept=False)\<close>\<close>
  "no_intercept_fitter = blank\<lparr>fit_intercept := False, alpha := 95 / 100\<rparr>"

section \<open>Notions used to state the properties\<close>



definition solver_shape :: "solver \<Rightarrow> bool" where
  \<comment> \<open>the solver answers with one row per coefficient\<close>
  "solver_shape lr = (\<forall>Xm y c1 c2 off R. lr Xm y c1 c2 off = Some R \<longrightarrow> length R = length off)"

definition rows_of_width :: "nat \<Rightarrow> matrix \<Rightarrow> bool" where
  "rows_of_width d M = list_all (\<lambda>r. length r = d) M"

definition shaped :: "nat \<Rightarrow> loop_state \<Rightarrow> bool" where
  \<comment> \<open>the locals have the shapes the code allocates them with\<close>
  "shaped d s = (length (loc_v s) = d \<and> (case loc_V s of None \<Rightarrow> True | Some Vm \<Rightarrow> length Vm = d)
      \<and> rows_of_width d (variance_hazards s) \<and> rows_of_width d (hazards s))"

definition set_weights :: "string \<Rightarrow> fl list \<Rightarrow> dataframe \<Rightarrow> dataframe" where
  \<comment> \<open>the table with the cells of the column named wc replaced\<close>
  "set_weights wc ws df = df\<lparr>cols := map (\<lambda>c. if cname c = wc then c\<lparr>cells := ws\<rparr> else c) (cols df)\<rparr>"

definition row_order :: "string \<Rightarrow> dataframe \<Rightarrow> nat list" where
  \<comment> \<open>the order in which \<open>sort_values\<close> puts the rows\<close>
  "row_order key df = (case find (\<lambda>c. cname c = key) (cols df) of None \<Rightarrow> [] | Some k \<Rightarrow> argsort (cells k))"

definition well_formed :: "dataframe \<Rightarrow> bool" where
  \<comment> \<open>every column has one cell per row\<close>
  "well_formed df = list_all (\<lambda>c. length (cells c) = nrows df) (cols df)"

definition has_column :: "string \<Rightarrow> dataframe \<Rightarrow> bool" where
  "has_column key df = (find (\<lambda>c. cname c = key) (cols df) \<noteq> None)"

definition positive_integer :: "fl \<Rightarrow> bool" where
  \<comment> \<open>a weight that passes both tests of \<^verbatim>\<open>_preprocess_dataframe\<close>: a positive whole number
      that the cast to a 64-bit integer gives back, that is, one below 2 to the power 63\<close>
  "positive_integer c = (is_fin c \<and> \<not> non_integral c \<and> \<not> non_positive c)"

definition input_error :: "error \<Rightarrow> bool" where
  \<comment> \<open>the exceptions that report a bad configuration or bad data\<close>
  "input_error e = (case e of ValueError m \<Rightarrow> True | AssertionError m \<Rightarrow> True
                    | DataQualityError m \<Rightarrow> True | _ \<Rightarrow> False)"

definition keeps_names :: "env \<Rightarrow> bool" where
  \<comment> \<open>\<^verbatim>\<open>normalize\<close> answers with a frame that has the columns of its argument\<close>
  "keeps_names env = (\<forall>Xf m sd. fnames (env_normalize env Xf m sd) = names Xf)"

definition one_baseline :: "fitter \<Rightarrow> string list \<Rightarrow> bool" where
  \<comment> \<open>with an intercept, the column \<^verbatim>\<open>baseline\<close> is there once, as \<^verbatim>\<open>_preprocess_dataframe\<close>
      leaves it\<close>
  "one_baseline self ns =
     (if fit_intercept self
      then length (filter (\<lambda>c. c \<noteq> ''baseline'') ns) + 1 = length ns \<and> ''baseline'' \<in> set ns
      else True)"

definition nonneg_rows :: "matrix \<Rightarrow> bool" where
  "nonneg_rows M = list_all (list_all (\<lambda>x. 0 \<le> x)) M"

definition nondecreasing_rows :: "matrix \<Rightarrow> bool" where
  \<comment> \<open>every column is non-decreasing from each row to the next\<close>
  "nondecreasing_rows M = list_all (\<lambda>(r, r'). list_all2 (\<le>) r r') (zip M (tl M))"

section \<open>Example inputs\<close>

text \<open>Four subjects with durations 1 to 4, all observed, one covariate and the intercept.\<close>

definition four_design :: design where
  "four_design = \<lparr>names = [''x'', ''baseline''], xrows = [[0, 1], [0, 1], [0, 1], [2, 1]]\<rparr>"

definition four_subjects :: ndarray where
  "four_subjects = \<lparr>ncols = 2, arr = [[0, 1], [0, 1], [0, 1], [2, 1]]\<rparr>"

definition four_times :: vec where
  "four_times = [1, 2, 3, 4]"

definition four_run :: "error option \<times> loop_state" where
  "four_run = run_loop ridge_regression default_fitter four_subjects four_times (replicate 4 True) False"

definition four_frame :: dataframe where
  \<comment> \<open>the same subjects as the caller gives them, unsorted; after division by the standard
      deviations 2 and 1 the covariate rows are those of \<open>four_design\<close>\<close>
  "four_frame = \<lparr>nrows = 4, cols =
     [\<lparr>cname = ''T'', numeric = True, cells = [Fin 3, Fin 1, Fin 4, Fin 2]\<rparr>,
      \<lparr>cname = ''E'', numeric = True, cells = [Fin 1, Fin 1, Fin 1, Fin 1]\<rparr>,
      \<lparr>cname = ''x'', numeric = True, cells = [Fin 0, Fin 0, Fin 4, Fin 0]\<rparr>]\<rparr>"

definition four_fit :: "error option \<times> fitter \<times> event list" where
  "four_fit = fit example_env default_fitter four_frame ''T'' (Some ''E'') None False"

definition four_fit_model :: "(error + frame \<times> frame) \<times> event list" where
  "four_fit_model = fit_model ridge_regression default_fitter four_design four_times
     (replicate 4 True) (replicate 4 (Fin 1)) False"

text \<open>The four subjects when the first three leave together, so that the second step finds
  one row left and a singular system.\<close>

definition tied_times :: vec where
  "tied_times = [1, 1, 1, 2]"

definition tied_run :: "(error + matrix \<times> matrix) \<times> event list" where
  "tied_run = fit_model_to_data_batch ridge_regression default_fitter four_subjects tied_times
     (replicate 4 True) (replicate 4 (Fin 1)) False"

text \<open>Two subjects whose only covariate is constantly zero, fitted without an intercept:
  the system is singular at the first step.\<close>

definition flat_frame :: dataframe where
  "flat_frame = \<lparr>nrows = 2, cols =
     [\<lparr>cname = ''T'', numeric = True, cells = [Fin 1, Fin 2]\<rparr>,
      \<lparr>cname = ''E'', numeric = True, cells = [Fin 1, Fin 1]\<rparr>,
      \<lparr>cname = ''x'', numeric = True, cells = [Fin 0, Fin 0]\<rparr>]\<rparr>"

definition flat_run :: "(error + matrix \<times> matrix) \<times> event list" where
  "flat_run = fit_model_to_data_batch ridge_regression no_intercept_fitter
     \<lparr>ncols = 1, arr = [[0], [0]]\<rparr> [1, 2] [True, True] [Fin 1, Fin 1] False"

definition flat_fit :: "error option \<times> fitter \<times> event list" where
  "flat_fit = fit example_env no_intercept_fitter flat_frame ''T'' (Some ''E'') None False"

text \<open>The four subjects, none of them observed to die.\<close>

definition censored_frame :: dataframe where
  "censored_frame = \<lparr>nrows = 4, cols =
     [\<lparr>cname = ''T'', numeric = True, cells = [Fin 3, Fin 1, Fin 4, Fin 2]\<rparr>,
      \<lparr>cname = ''E'', numeric = True, cells = [Fin 0, Fin 0, Fin 0, Fin 0]\<rparr>,
      \<lparr>cname = ''x'', numeric = True, cells = [Fin 0, Fin 0, Fin 4, Fin 0]\<rparr>]\<rparr>"

definition censored_fit :: "error option \<times> fitter \<times> event list" where
  "censored_fit = fit example_env default_fitter censored_frame ''T'' (Some ''E'') None False"

text \<open>Three subjects, none of them observed to die, whose covariate is constantly 1: its
  standard deviation is zero.\<close>

definition constant_frame :: dataframe where
  "constant_frame = \<lparr>nrows = 3, cols =
     [\<lparr>cname = ''T'', numeric = True, cells = [Fin 1, Fin 2, Fin 3]\<rparr>,
      \<lparr>cname = ''E'', numeric = True, cells = [Fin 0, Fin 0, Fin 0]\<rparr>,
      \<lparr>cname = ''x'', numeric = True, cells = [Fin 1, Fin 1, Fin 1]\<rparr>]\<rparr>"

definition constant_fit :: "error option \<times> fitter \<times> event list" where
  "constant_fit = fit example_env default_fitter constant_frame ''T'' (Some ''E'') None False"



text \<open>The four subjects with a column of weights, and weights to put in it.\<close>

definition weighted_frame :: dataframe where
  "weighted_frame = \<lparr>nrows = 4, cols =
     [\<lparr>cname = ''T'', numeric = True, cells = [Fin 3, Fin 1, Fin 4, Fin 2]\<rparr>,
      \<lparr>cname = ''E'', numeric = True, cells = [Fin 1, Fin 1, Fin 1, Fin 1]\<rparr>,
      \<lparr>cname = ''x'', numeric = True, cells = [Fin 0, Fin 0, Fin 4, Fin 0]\<rparr>,
      \<lparr>cname = ''w'', numeric = True, cells = [Fin 1, Fin 1, Fin 1, Fin 1]\<rparr>]\<rparr>"

definition fractional_weights :: "fl list" where
  "fractional_weights = [Fin (1 / 2), Fin 1, Fin 2, Fin 1]"

definition fractional_negative_weights :: "fl list" where
  "fractional_negative_weights = [Fin (1 / 2), Fin (- 1), Fin 1, Fin 1]"

definition negative_weights :: "fl list" where
  "negative_weights = [Fin 1, Fin (- 1), Fin 1, Fin 1]"

definition zero_weights :: "fl list" where
  "zero_weights = [Fin 1, Fin 0, Fin 1, Fin 1]"

definition other_weights :: "fl list" where
  "other_weights = [Fin 2, Fin 1, Fin 3, Fin 1]"

definition fit_weighted :: "fl list \<Rightarrow> error option \<times> fitter \<times> event list" where
  "fit_weighted ws = fit example_env default_fitter (set_weights ''w'' ws weighted_frame)
     ''T'' (Some ''E'') (Some ''w'') False"

definition unit_weights :: "fl list" where
  "unit_weights = [Fin 1, Fin 1, Fin 1, Fin 1]"

section \<open>What one pass of the loop body does\<close>




lemma squared_sum_nonneg: "0 \<le> squared_sum msk row"
  unfolding squared_sum_def by (rule sum_list_nonneg) auto

lemma nonneg_rows_update:
  assumes "nonneg_rows M" and "\<forall>x \<in> set r. 0 \<le> x"
  shows "nonneg_rows (M[i := r])"
proof -
  have "set (M[i := r]) \<subseteq> insert r (set M)" by (rule set_update_subset_insert)
  with assms show ?thesis unfolding nonneg_rows_def list_all_iff by blast
qed

lemma loop_body_frame:
  assumes "loop_body lr self T E sp n d nd i t s = (c, s')"
  shows "loc_i s' = Some i \<and> length (hazards s') = length (hazards s)
         \<and> length (variance_hazards s') = length (variance_hazards s)
         \<and> (\<forall>m. m \<noteq> i \<longrightarrow> hazards s' ! m = hazards s ! m
                \<and> variance_hazards s' ! m = variance_hazards s ! m)"
  using assms
  by (auto simp: loop_body_def solve_step_def say_def Let_def
           split: option.splits if_splits)

lemma loop_body_variance:
  assumes "loop_body lr self T E sp n d nd i t s = (c, s')"
  shows "variance_hazards s' =
           (case c of Raise e \<Rightarrow> variance_hazards s
            | _ \<Rightarrow> (variance_hazards s)[i := map (squared_sum (deaths_mask T E t)) (the (loc_V s'))])"
  using assms
  by (auto simp: loop_body_def solve_step_def say_def Let_def
           split: option.splits if_splits)

lemma loop_body_nonneg:
  assumes "loop_body lr self T E sp n d nd i t s = (c, s')"
    and "nonneg_rows (variance_hazards s)"
  shows "nonneg_rows (variance_hazards s')"
proof -
  have upd: "\<And>Vm. nonneg_rows ((variance_hazards s)[i := map (squared_sum (deaths_mask T E t)) Vm])"
    by (rule nonneg_rows_update [OF assms(2)]) (auto simp: squared_sum_nonneg)
  show ?thesis
    using loop_body_variance [OF assms(1)] upd assms(2) by (cases c) simp_all
qed




lemma for_loop_frame:
  assumes "for_loop lr self T E sp n d nd (enumerate k ts) s = (r, s')"
  shows "length (hazards s') = length (hazards s)
       \<and> length (variance_hazards s') = length (variance_hazards s)
       \<and> (ts \<noteq> [] \<longrightarrow> (\<exists>i\<ge>k. loc_i s' = Some i \<and> i < k + length ts \<and>
             (\<forall>m>i. hazards s' ! m = hazards s ! m
                  \<and> variance_hazards s' ! m = variance_hazards s ! m)))"
  using assms
proof (induction ts arbitrary: k s)
  case Nil
  then show ?case by simp
next
  case (Cons t rest)
  obtain c s1 where body: "loop_body lr self T E sp n d nd k t s = (c, s1)"
    by (cases "loop_body lr self T E sp n d nd k t s")
  note fr = loop_body_frame [OF body]
  show ?case
  proof (cases "c = Continue \<and> rest \<noteq> []")
    case False
    with body Cons.prems have "s' = s1"
      by (cases c) auto
    with fr show ?thesis by auto
  next
    case True
    with body Cons.prems
    have rest_run: "for_loop lr self T E sp n d nd (enumerate (Suc k) rest) s1 = (r, s')"
      by simp
    from Cons.IH [OF rest_run] True obtain i where i:
      "length (hazards s') = length (hazards s1)"
      "length (variance_hazards s') = length (variance_hazards s1)"
      "Suc k \<le> i" "loc_i s' = Some i" "i < Suc k + length rest"
      "\<forall>m>i. hazards s' ! m = hazards s1 ! m \<and> variance_hazards s' ! m = variance_hazards s1 ! m"
      by blast
    have "\<forall>m>i. hazards s' ! m = hazards s ! m \<and> variance_hazards s' ! m = variance_hazards s ! m"
    proof (intro allI impI)
      fix m assume "i < m"
      with i(3) have "m \<noteq> k" by simp
      with fr i(6) \<open>i < m\<close> show "hazards s' ! m = hazards s ! m \<and> variance_hazards s' ! m = variance_hazards s ! m"
        by simp
    qed
    with i fr show ?thesis
      by (intro conjI impI exI [of _ i]) simp_all
  qed
qed

lemma for_loop_nonneg:
  assumes "for_loop lr self T E sp n d nd steps s = (r, s')"
    and "nonneg_rows (variance_hazards s)"
  shows "nonneg_rows (variance_hazards s')"
  using assms
proof (induction steps arbitrary: s)
  case Nil
  then show ?case by simp
next
  case (Cons st rest)
  obtain i t where st: "st = (i, t)" by (cases st)
  obtain c s1 where body: "loop_body lr self T E sp n d nd i t s = (c, s1)"
    by (cases "loop_body lr self T E sp n d nd i t s")
  note nn = loop_body_nonneg [OF body Cons.prems(2)]
  show ?case
  proof (cases c)
    case Continue
    with body st Cons.prems(1) have "for_loop lr self T E sp n d nd rest s1 = (r, s')" by simp
    from Cons.IH [OF this nn] show ?thesis .
  next
    case Break
    with body st Cons.prems(1) nn show ?thesis by simp
  next
    case (Raise e)
    with body st Cons.prems(1) nn show ?thesis by simp
  qed
qed


lemma length_cumsum: "length (cumsum M) = length M"
proof -
  have "\<And>acc. length (running_sum acc M') = length M'" for M'
    by (induction M') (simp_all add: Let_def)
  then show ?thesis by (cases M) (simp_all add: cumsum_def)
qed

lemma zeros2_nth: "j < k \<Longrightarrow> zeros2 k d ! j = zeros d"
  by (simp add: zeros2_def)

lemma run_loop_rows:
  assumes "run_loop lr self Xa T E sp = (r, s)"
  shows "length (hazards s) = length (unique_death_times T E)
       \<and> length (variance_hazards s) = length (unique_death_times T E)
       \<and> steps_completed s \<le> length (unique_death_times T E)
       \<and> (\<forall>j. steps_completed s \<le> j \<and> j < length (unique_death_times T E) \<longrightarrow>
             hazards s ! j = zeros (ncols Xa) \<and> variance_hazards s ! j = zeros (ncols Xa))"
proof -
  let ?ts = "unique_death_times T E"
  let ?s0 = "initial_state (arr Xa) (length ?ts) (ncols Xa)"
  from assms have run: "for_loop lr self T E sp (length (arr Xa)) (ncols Xa) (length ?ts)
                          (enumerate 0 ?ts) ?s0 = (r, s)"
    by (simp add: run_loop_def Let_def)
  note fr = for_loop_frame [OF run]
  have init: "length (hazards ?s0) = length ?ts" "length (variance_hazards ?s0) = length ?ts"
    "\<And>j. j < length ?ts \<Longrightarrow> hazards ?s0 ! j = zeros (ncols Xa)"
    "\<And>j. j < length ?ts \<Longrightarrow> variance_hazards ?s0 ! j = zeros (ncols Xa)"
    "loc_i ?s0 = None"
    by (simp_all add: initial_state_def zeros2_def)
  show ?thesis
  proof (cases "?ts = []")
    case True
    with run have "s = ?s0" by simp
    with True init show ?thesis by (simp add: steps_completed_def)
  next
    case False
    with fr obtain i where i: "loc_i s = Some i" "i < length ?ts"
      "\<forall>m>i. hazards s ! m = hazards ?s0 ! m \<and> variance_hazards s ! m = variance_hazards ?s0 ! m"
      by auto
    then have "steps_completed s = Suc i" by (simp add: steps_completed_def)
    with i fr init show ?thesis by auto
  qed
qed

lemma four_run_value:
  "four_run = (None,
     \<lparr>loc_X = [[0, 0], [0, 0], [0, 1], [2, 1]], loc_v = [- (1 / 4), 1 / 2],
      loc_V = Some [[0, - (1 / 4), - (1 / 4), 1 / 2], [0, 1 / 2, 1 / 2, 0]],
      loc_i = Some 1, total_observed_exits = 1,
      hazards = [[- (1 / 6), 1 / 3], [- (1 / 4), 1 / 2], [0, 0], [0, 0]],
      variance_hazards = [[1 / 36, 1 / 9], [1 / 16, 1 / 4], [0, 0], [0, 0]],
      emitted = []\<rparr>)"
  by code_simp

lemma four_fit_model_value:
  "four_fit_model =
     (Inr (\<lparr>index = [1, 2, 3, 4], columns = [''x'', ''baseline''],
            rows = [[- (1 / 6), 1 / 3], [- (5 / 12), 5 / 6], [- (5 / 12), 5 / 6],
                    [- (5 / 12), 5 / 6]]\<rparr>,
           \<lparr>index = [1, 2, 3, 4], columns = [''x'', ''baseline''],
            rows = [[1 / 36, 1 / 9], [13 / 144, 13 / 36], [13 / 144, 13 / 36],
                    [13 / 144, 13 / 36]]\<rparr>), [])"
  by code_simp

section \<open>Shapes and signs kept by the loop\<close>

lemma rows_of_width_update:
  assumes "rows_of_width d M" and "length r = d"
  shows "rows_of_width d (M[i := r])"
proof -
  have "set (M[i := r]) \<subseteq> insert r (set M)" by (rule set_update_subset_insert)
  with assms show ?thesis unfolding rows_of_width_def list_all_iff by blast
qed

lemma solve_step_shaped:
  assumes "solver_shape lr" and "shaped d s"
  shows "shaped d (solve_step lr self d deaths i t s)"
proof (cases "lr (loc_X s) deaths (coef_penalizer self) (smoothing_penalizer self) (loc_v s)")
  case None
  with assms(2) show ?thesis by (simp add: solve_step_def shaped_def zeros_def)
next
  case (Some R)
  with assms(1) have "length R = length (loc_v s)" unfolding solver_shape_def by blast
  with Some assms(2) show ?thesis by (simp add: solve_step_def shaped_def)
qed

lemma loop_body_shaped:
  assumes "solver_shape lr" and "shaped d s"
    and "loop_body lr self T E sp n d nd i t s = (c, s')"
  shows "shaped d s'"
proof -
  let ?s1 = "solve_step lr self d (deaths_mask T E t) i t (s\<lparr>loc_i := Some i\<rparr>)"
  have "shaped d (s\<lparr>loc_i := Some i\<rparr>)" using assms(2) by (simp add: shaped_def)
  from solve_step_shaped [OF assms(1) this]
  have s1: "shaped d ?s1" .
  then have h: "rows_of_width d ((hazards ?s1)[i := loc_v ?s1])"
    by (intro rows_of_width_update) (simp_all add: shaped_def)
  have v: "\<And>Vm. loc_V ?s1 = Some Vm \<Longrightarrow>
      rows_of_width d ((variance_hazards ?s1)[i := map (squared_sum (deaths_mask T E t)) Vm])"
    using s1 by (intro rows_of_width_update) (simp_all add: shaped_def)
  from assms(3) s1 h v show ?thesis
    by (auto simp: loop_body_def say_def Let_def shaped_def split: option.splits if_splits)
qed

lemma for_loop_shaped:
  assumes "solver_shape lr" and "shaped d s"
    and "for_loop lr self T E sp n d nd steps s = (r, s')"
  shows "shaped d s'"
  using assms(2,3)
proof (induction steps arbitrary: s)
  case Nil
  then show ?case by simp
next
  case (Cons st rest)
  obtain i t where st: "st = (i, t)" by (cases st)
  obtain c s1 where body: "loop_body lr self T E sp n d nd i t s = (c, s1)"
    by (cases "loop_body lr self T E sp n d nd i t s")
  note sh = loop_body_shaped [OF assms(1) Cons.prems(1) body]
  show ?case
  proof (cases c)
    case Continue
    with body st Cons.prems(2) have "for_loop lr self T E sp n d nd rest s1 = (r, s')" by simp
    from Cons.IH [OF sh this] show ?thesis .
  next
    case Break
    with body st Cons.prems(2) sh show ?thesis by simp
  next
    case (Raise e)
    with body st Cons.prems(2) sh show ?thesis by simp
  qed
qed

lemma initial_state_shaped: "shaped d (initial_state Xm nd d)"
  by (simp add: shaped_def initial_state_def zeros_def zeros2_def rows_of_width_def list_all_iff)

lemma initial_state_nonneg: "nonneg_rows (variance_hazards (initial_state Xm nd d))"
  by (simp add: initial_state_def zeros_def zeros2_def nonneg_rows_def list_all_iff)

lemma nondecreasing_rows_Cons:
  "nondecreasing_rows (a # b # M) = (list_all2 (\<le>) a b \<and> nondecreasing_rows (b # M))"
  by (simp add: nondecreasing_rows_def)

lemma nondecreasing_rows_single: "nondecreasing_rows [a]"
  by (simp add: nondecreasing_rows_def)

lemma add_nonneg_row:
  fixes acc r :: vec
  assumes "length acc = length r" and "list_all (\<lambda>x. 0 \<le> x) r"
  shows "list_all2 (\<le>) acc (map2 (+) acc r)"
  using assms
  by (induction acc r rule: list_induct2) simp_all

lemma add_nonneg_row_nonneg:
  fixes acc r :: vec
  assumes "list_all (\<lambda>x. 0 \<le> x) acc" and "list_all (\<lambda>x. 0 \<le> x) r"
  shows "list_all (\<lambda>x. 0 \<le> x) (map2 (+) acc r)"
  using assms
proof (induction acc arbitrary: r)
  case Nil
  then show ?case by simp
next
  case (Cons a acc)
  then show ?case by (cases r) simp_all
qed

lemma running_sum_monotone:
  assumes "length acc = d" and "list_all (\<lambda>x. 0 \<le> x) acc"
    and "rows_of_width d M" and "nonneg_rows M"
  shows "nonneg_rows (running_sum acc M) \<and> nondecreasing_rows (acc # running_sum acc M)"
  using assms
proof (induction M arbitrary: acc)
  case Nil
  then show ?case by (simp add: nonneg_rows_def nondecreasing_rows_single)
next
  case (Cons r M)
  let ?a = "map2 (+) acc r"
  from Cons.prems have r: "length r = d" "list_all (\<lambda>x. 0 \<le> x) r" "rows_of_width d M" "nonneg_rows M"
    by (simp_all add: rows_of_width_def nonneg_rows_def)
  have a: "length ?a = d" "list_all (\<lambda>x. 0 \<le> x) ?a" "list_all2 (\<le>) acc ?a"
    using Cons.prems(1,2) r add_nonneg_row [of acc r] add_nonneg_row_nonneg [of acc r] by simp_all
  from Cons.IH [OF a(1) a(2) r(3) r(4)] a show ?case
    by (simp add: Let_def nondecreasing_rows_Cons nonneg_rows_def)
qed

lemma cumsum_monotone:
  assumes "rows_of_width d M" and "nonneg_rows M"
  shows "nonneg_rows (cumsum M) \<and> nondecreasing_rows (cumsum M)"
proof (cases M)
  case Nil
  then show ?thesis by (simp add: cumsum_def nonneg_rows_def nondecreasing_rows_def)
next
  case (Cons r rest)
  with assms have "length r = d" "list_all (\<lambda>x. 0 \<le> x) r" "rows_of_width d rest" "nonneg_rows rest"
    by (simp_all add: rows_of_width_def nonneg_rows_def)
  from running_sum_monotone [OF this] this(2) Cons show ?thesis
    by (simp add: cumsum_def nonneg_rows_def)
qed

lemma fit_model_variance:
  assumes "fit_model lr self Xf T E wts sp = (Inr (ch, cv), evs)" and "solver_shape lr"
  shows "nonneg_rows (rows cv) \<and> nondecreasing_rows (rows cv)"
proof -
  let ?Xa = "\<lparr>ncols = length (names Xf), arr = xrows Xf\<rparr>"
  obtain r s where run: "run_loop lr self ?Xa T E sp = (r, s)"
    by (cases "run_loop lr self ?Xa T E sp")
  with assms have cv: "rows cv = cumsum (variance_hazards s)"
    by (auto simp: fit_model_def fit_model_to_data_batch_def Let_def split: option.splits)
  from run have loop: "for_loop lr self T E sp (length (xrows Xf)) (length (names Xf))
      (length (unique_death_times T E)) (enumerate 0 (unique_death_times T E))
      (initial_state (xrows Xf) (length (unique_death_times T E)) (length (names Xf))) = (r, s)"
    by (simp add: run_loop_def Let_def)
  have "shaped (length (names Xf)) s"
    by (rule for_loop_shaped [OF assms(2) initial_state_shaped loop])
  moreover have "nonneg_rows (variance_hazards s)"
    by (rule for_loop_nonneg [OF loop initial_state_nonneg])
  ultimately show ?thesis
    unfolding cv by (intro cumsum_monotone [of "length (names Xf)"]) (simp_all add: shaped_def)
qed

lemma unique_death_times_props:
  "sorted (unique_death_times T E) \<and> distinct (unique_death_times T E)
   \<and> set (unique_death_times T E) = {t. (t, True) \<in> set (zip T E)}"
  by (auto simp: unique_death_times_def image_iff)


section \<open>The whole of \<^verbatim>\<open>fit\<close> on the example\<close>

lemma four_preprocess:
  "preprocess_dataframe (begin_fit example_env default_fitter four_frame ''T'' (Some ''E'') None) four_frame
   = Inr (\<lparr>names = [''x'', ''baseline''], xrows = [[0, 1], [0, 1], [0, 1], [4, 1]]\<rparr>,
          [1, 2, 3, 4], [True, True, True, True], [Fin 1, Fin 1, Fin 1, Fin 1])"
  by code_simp

lemma four_std:
  "std0 \<lparr>names = [''x'', ''baseline''], xrows = [[0, 1], [0, 1], [0, 1], [4, 1]]\<rparr> = [Fin 2, Fin 0]"
  by (simp add: std0_def std_col_def column_of_def Let_def upt_rec [of 0])


lemma solve_step_penalizers:
  assumes "coef_penalizer a = coef_penalizer b" and "smoothing_penalizer a = smoothing_penalizer b"
  shows "solve_step lr a = solve_step lr b"
  using assms by (intro ext) (simp add: solve_step_def)

lemma loop_body_penalizers:
  assumes "coef_penalizer a = coef_penalizer b" and "smoothing_penalizer a = smoothing_penalizer b"
  shows "loop_body lr a T E sp n d nd i t s = loop_body lr b T E sp n d nd i t s"
  by (simp add: loop_body_def solve_step_penalizers [OF assms])

lemma for_loop_penalizers:
  assumes "coef_penalizer a = coef_penalizer b" and "smoothing_penalizer a = smoothing_penalizer b"
  shows "for_loop lr a T E sp n d nd steps s = for_loop lr b T E sp n d nd steps s"
proof (induction steps arbitrary: s)
  case Nil
  show ?case by simp
next
  case (Cons st steps)
  obtain i t where "st = (i, t)" by (cases st)
  with Cons show ?case
    by (simp add: loop_body_penalizers [OF assms] split: prod.splits control.splits)
qed

lemma fit_model_penalizers:
  assumes "coef_penalizer a = coef_penalizer b" and "smoothing_penalizer a = smoothing_penalizer b"
  shows "fit_model lr a Xf T E W sp = fit_model lr b Xf T E W sp"
  by (simp add: fit_model_def fit_model_to_data_batch_def run_loop_def for_loop_penalizers [OF assms])

lemma four_fit_model_any:
  assumes "coef_penalizer s = 0" and "smoothing_penalizer s = 0"
  shows "fit_model ridge_regression s four_design [1, 2, 3, 4] [True, True, True, True]
           [Fin 1, Fin 1, Fin 1, Fin 1] False = four_fit_model"
proof -
  have "fit_model ridge_regression s four_design four_times (replicate 4 True) (replicate 4 (Fin 1)) False
        = four_fit_model"
    unfolding four_fit_model_def
    by (rule fit_model_penalizers) (simp_all add: assms default_fitter_def blank_def)
  moreover have "replicate 4 True = [True, True, True, True]"
    "replicate 4 (Fin 1) = [Fin 1, Fin 1, Fin 1, Fin 1]"
    by (simp_all add: numeral_eq_Suc)
  ultimately show ?thesis by (simp add: four_times_def)
qed

lemma four_normalize:
  "finite_design (env_normalize example_env
       \<lparr>names = [''x'', ''baseline''], xrows = [[0, 1], [0, 1], [0, 1], [4, 1]]\<rparr> 0 [Fin 2, Fin 1])
   = Some four_design"
  by (simp add: example_env_def plain_normalize_def finite_design_def finite_rows_def fl_div_def
      is_fin_def fin_val_def four_design_def)

lemma four_fit_value:
  "fst four_fit = None \<and> snd (snd four_fit) = []
   \<and> cumulative_hazards (fst (snd four_fit)) =
       Some \<lparr>index = [1, 2, 3, 4], columns = [''x'', ''baseline''],
             rows = [[- (1 / 12), 1 / 3], [- (5 / 24), 5 / 6], [- (5 / 24), 5 / 6],
                     [- (5 / 24), 5 / 6]]\<rparr>
   \<and> cumulative_variance (fst (snd four_fit)) =
       Some \<lparr>index = [1, 2, 3, 4], columns = [''x'', ''baseline''],
             rows = [[1 / 72, 1 / 9], [13 / 288, 13 / 36], [13 / 288, 13 / 36],
                     [13 / 288, 13 / 36]]\<rparr>"
proof -
  have lr: "env_lr example_env = ridge_regression" by (simp add: example_env_def)
  have pen: "coef_penalizer (begin_fit example_env default_fitter four_frame ''T'' (Some ''E'') None) = 0"
    "smoothing_penalizer (begin_fit example_env default_fitter four_frame ''T'' (Some ''E'') None) = 0"
    "fit_intercept (begin_fit example_env default_fitter four_frame ''T'' (Some ''E'') None)"
    by (simp_all add: begin_fit_def default_fitter_def blank_def)
  show ?thesis
    unfolding four_fit_def fit_def fit_arrays_def
    by (simp add: Let_def four_preprocess four_std fix_norm_std_def fit_model_normalized_def
        four_normalize lr pen four_fit_model_any four_fit_model_value divide_columns_def
        finite_rows_def fl_div_def is_fin_def fin_val_def
        compute_confidence_intervals_def predict_cumulative_hazard_def covariate_matrix_def select_columns_def
        index_of_def)
qed

lemma length_reduce_col: "length (reduce_col k p M) = length M"
  by (simp add: reduce_col_def Let_def)

lemma length_gauss_jordan: "gauss_jordan k j M = Some M' \<Longrightarrow> length M' = length M"
  by (induction j arbitrary: k M) (auto simp: length_reduce_col split: option.splits)

lemma ridge_regression_shape: "solver_shape ridge_regression"
  unfolding solver_shape_def
proof (intro allI impI)
  fix Xm y c1 c2 off R
  assume "ridge_regression Xm y c1 c2 off = Some R"
  then obtain M' M where "gauss_jordan 0 (length off) M = Some M'" "length R = length M'"
    "length M = length off"
    by (auto simp: ridge_regression_def Let_def transpose_cols_def)
  with length_gauss_jordan show "length R = length off" by fastforce
qed


section \<open>Rescaling by the standard deviations\<close>

lemma std_col_nonneg:
  assumes "std_col xs = Fin r"
  shows "0 \<le> r"
proof -
  let ?m = "sum_list xs / real (length xs)"
  have "0 \<le> sum_list (map (\<lambda>x. (x - ?m) ^ 2) xs)"
    by (rule sum_list_nonneg) auto
  then have "0 \<le> sum_list (map (\<lambda>x. (x - ?m) ^ 2) xs) / real (length xs - 1)"
    by (rule divide_nonneg_nonneg) simp
  with assms show ?thesis
    by (auto simp: std_col_def Let_def split: if_splits)
qed

lemma std0_nonneg: "Fin r \<in> set (std0 Xf) \<Longrightarrow> 0 \<le> r"
  by (auto simp: std0_def dest: std_col_nonneg [OF sym])

lemma fix_norm_std_nonneg:
  assumes "Fin r \<in> set (fix_norm_std self Xf (std0 Xf))"
  shows "0 \<le> r"
proof (cases "fit_intercept self")
  case True
  with assms obtain c s where "(c, s) \<in> set (zip (names Xf) (std0 Xf))"
    "Fin r = (if c = ''baseline'' then Fin 1 else s)"
    by (auto simp: fix_norm_std_def)
  then show ?thesis
    using std0_nonneg [of r Xf] by (auto split: if_splits dest: set_zip_rightD)
next
  case False
  with assms obtain s where "s \<in> set (std0 Xf)"
    "Fin r = (if fl_less s (1 / 10 ^ 8) then Fin 1 else s)"
    by (auto simp: fix_norm_std_def)
  then show ?thesis
    using std0_nonneg [of r Xf] by (auto split: if_splits)
qed

lemma std_nonneg: "list_all (\<lambda>s. 0 \<le> s) (map fin_val (fix_norm_std self Xf (std0 Xf)))"
proof -
  have "0 \<le> fin_val c" if "c \<in> set (fix_norm_std self Xf (std0 Xf))" for c
  proof (cases c)
    case (Fin r)
    with that fix_norm_std_nonneg [of r self Xf] show ?thesis by (simp add: fin_val_def)
  qed (simp_all add: fin_val_def)
  then show ?thesis by (simp add: list_all_iff)
qed

lemma fin_val_fl_div: "fin_val (fl_div x c) = x / fin_val c"
  by (cases c) (simp_all add: fl_div_def fin_val_def)

lemma fin_val_divide_row: "map fin_val (map2 fl_div row sd) = map2 (/) row (map fin_val sd)"
proof (induction row arbitrary: sd)
  case Nil
  show ?case by simp
next
  case (Cons x row)
  then show ?case by (cases sd) (simp_all add: fin_val_fl_div)
qed

lemma fin_val_divide_rows:
  "map (map fin_val) (map (\<lambda>row. map2 fl_div row sd) M)
   = map (\<lambda>row. map2 (/) row (map fin_val sd)) M"
  by (induction M) (simp_all only: list.map fin_val_divide_row)

lemma divide_columns_fields:
  assumes "divide_columns F sd = Some G"
  shows "rows G = map (\<lambda>row. map2 (/) row (map fin_val sd)) (rows F)"
    and "columns G = columns F" and "index G = index F"
proof -
  from assms obtain M where M: "finite_rows (map (\<lambda>row. map2 fl_div row sd) (rows F)) = Some M"
    and G: "G = F\<lparr>rows := M\<rparr>"
    by (auto simp: divide_columns_def)
  from M have "M = map (map fin_val) (map (\<lambda>row. map2 fl_div row sd) (rows F))"
    unfolding finite_rows_def by (auto split: if_splits)
  then have "M = map (\<lambda>row. map2 (/) row (map fin_val sd)) (rows F)"
    by (simp only: fin_val_divide_rows)
  with G show "rows G = map (\<lambda>row. map2 (/) row (map fin_val sd)) (rows F)" by simp
  from G show "columns G = columns F" and "index G = index F" by simp_all
qed

lemma divide_columns_no_rows: "divide_columns (no_rows cs) sd = Some (no_rows cs)"
  by (simp add: divide_columns_def finite_rows_def no_rows_def)

lemma divide_row_nonneg:
  fixes row sd :: vec
  assumes "list_all (\<lambda>x. 0 \<le> x) row" and "list_all (\<lambda>s. 0 \<le> s) sd"
  shows "list_all (\<lambda>x. 0 \<le> x) (map2 (/) row sd)"
  using assms
proof (induction row arbitrary: sd)
  case Nil
  then show ?case by simp
next
  case (Cons x row)
  then show ?case by (cases sd) simp_all
qed

lemma divide_row_mono:
  fixes r r' sd :: vec
  assumes "list_all2 (\<le>) r r'" and "list_all (\<lambda>s. 0 \<le> s) sd"
  shows "list_all2 (\<le>) (map2 (/) r sd) (map2 (/) r' sd)"
  using assms
proof (induction r r' arbitrary: sd rule: list_all2_induct)
  case Nil
  then show ?case by simp
next
  case (Cons x xs y ys)
  then show ?case by (cases sd) (simp_all add: divide_right_mono)
qed

lemma divide_columns_monotone:
  assumes "divide_columns F sd = Some G"
    and "nonneg_rows (rows F)" and "nondecreasing_rows (rows F)"
    and "list_all (\<lambda>s. 0 \<le> s) (map fin_val sd)"
  shows "nonneg_rows (rows G) \<and> nondecreasing_rows (rows G)"
proof -
  let ?sd = "map fin_val sd"
  have nn: "nonneg_rows (map (\<lambda>row. map2 (/) row ?sd) M)" if "nonneg_rows M" for M
    using that unfolding nonneg_rows_def
    by (induction M) (simp_all add: divide_row_nonneg [OF _ assms(4)])
  have nd: "nondecreasing_rows (map (\<lambda>row. map2 (/) row ?sd) M)" if "nondecreasing_rows M" for M
    using that
  proof (induction M rule: induct_list012)
    case 1
    then show ?case by (simp add: nondecreasing_rows_def)
  next
    case (2 x)
    then show ?case by (simp add: nondecreasing_rows_def)
  next
    case (3 x y zs)
    then show ?case
      using divide_row_mono [OF _ assms(4), of x y] by (simp add: nondecreasing_rows_Cons)
  qed
  from nn [OF assms(2)] nd [OF assms(3)] show ?thesis
    unfolding divide_columns_fields(1) [OF assms(1)] by simp
qed


section \<open>The examples with a singular step, and predictions on the example\<close>

lemma tied_run_value:
  "tied_run = (Inr ([[- (1 / 2), 1], [0, 0]], [[1 / 12, 1 / 3], [1 / 4, 0]]), [ConvergenceWarning 1 2])"
  by code_simp

lemma flat_run_value:
  "flat_run = (Inl (UnboundLocalError ''V''), [ConvergenceWarning 0 1])"
  by code_simp

lemma flat_preprocess:
  "preprocess_dataframe (begin_fit example_env no_intercept_fitter flat_frame ''T'' (Some ''E'') None) flat_frame
   = Inr (\<lparr>names = [''x''], xrows = [[0], [0]]\<rparr>, [1, 2], [True, True], [Fin 1, Fin 1])"
  by code_simp

lemma flat_std: "std0 \<lparr>names = [''x''], xrows = [[0], [0]]\<rparr> = [Fin 0]"
  by (simp add: std0_def std_col_def column_of_def Let_def)

lemma flat_fit_value:
  "fst flat_fit = Some (UnboundLocalError ''V'') \<and> snd (snd flat_fit) = [ConvergenceWarning 0 1]
   \<and> cumulative_hazards (fst (snd flat_fit)) = None"
proof -
  have norm: "finite_design (env_normalize example_env \<lparr>names = [''x''], xrows = [[0], [0]]\<rparr> 0 [Fin 1])
              = Some \<lparr>names = [''x''], xrows = [[0], [0]]\<rparr>"
    by (simp add: example_env_def plain_normalize_def finite_design_def finite_rows_def fl_div_def
        is_fin_def fin_val_def)
  have lr: "env_lr example_env = ridge_regression" by (simp add: example_env_def)
  have pen: "\<not> fit_intercept (begin_fit example_env no_intercept_fitter flat_frame ''T'' (Some ''E'') None)"
    "cumulative_hazards (begin_fit example_env no_intercept_fitter flat_frame ''T'' (Some ''E'') None) = None"
    by (simp_all add: begin_fit_def no_intercept_fitter_def blank_def)
  have fm: "fit_model ridge_regression s \<lparr>names = [''x''], xrows = [[0], [0]]\<rparr> [1, 2] [True, True]
              [Fin 1, Fin 1] False = (Inl (UnboundLocalError ''V''), [ConvergenceWarning 0 1])"
    if "coef_penalizer s = 0" "smoothing_penalizer s = 0" for s
  proof -
    have "fit_model ridge_regression s \<lparr>names = [''x''], xrows = [[0], [0]]\<rparr> [1, 2] [True, True]
              [Fin 1, Fin 1] False
        = fit_model ridge_regression no_intercept_fitter \<lparr>names = [''x''], xrows = [[0], [0]]\<rparr> [1, 2] [True, True]
              [Fin 1, Fin 1] False"
      by (rule fit_model_penalizers) (simp_all add: that no_intercept_fitter_def blank_def)
    also have "\<dots> = (Inl (UnboundLocalError ''V''), [ConvergenceWarning 0 1])"
      using flat_run_value by (simp add: fit_model_def flat_run_def)
    finally show ?thesis .
  qed
  have pen2: "coef_penalizer (begin_fit example_env no_intercept_fitter flat_frame ''T'' (Some ''E'') None) = 0"
    "smoothing_penalizer (begin_fit example_env no_intercept_fitter flat_frame ''T'' (Some ''E'') None) = 0"
    by (simp_all add: begin_fit_def no_intercept_fitter_def blank_def)
  show ?thesis
    unfolding flat_fit_def fit_def fit_arrays_def
    by (simp add: Let_def flat_preprocess flat_std fix_norm_std_def fit_model_normalized_def
        fl_less_def norm lr pen pen2 fm)
qed





section \<open>No death times\<close>

lemma no_deaths: "list_all (\<lambda>e. \<not> e) E \<Longrightarrow> unique_death_times T E = []"
proof -
  assume "list_all (\<lambda>e. \<not> e) E"
  then have "filter snd (zip T E) = []"
    by (auto simp: filter_empty_conv list_all_iff dest: set_zip_rightD)
  then show ?thesis by (simp add: unique_death_times_def)
qed

lemma fit_model_all_censored:
  assumes "list_all (\<lambda>e. \<not> e) E"
  shows "fit_model lr self Xf T E W sp =
           (Inr (\<lparr>index = [], columns = names Xf, rows = []\<rparr>,
                 \<lparr>index = [], columns = names Xf, rows = []\<rparr>), [])"
  by (simp add: fit_model_def fit_model_to_data_batch_def run_loop_def no_deaths [OF assms]
      initial_state_def zeros2_def cumsum_def Let_def)

lemma fit_model_normalized_all_censored:
  assumes "list_all (\<lambda>e. \<not> e) E"
  shows "fit_model_normalized lr self Xn T E W sp
           = (Inr (no_rows (fnames Xn), no_rows (fnames Xn)), [])"
proof (cases "finite_design Xn")
  case None
  then show ?thesis by (simp add: fit_model_normalized_def no_deaths [OF assms])
next
  case (Some Xf)
  then have "names Xf = fnames Xn" by (auto simp: finite_design_def)
  with Some show ?thesis
    by (simp add: fit_model_normalized_def fit_model_all_censored [OF assms] no_rows_def)
qed

lemma predict_no_rows:
  assumes "predict_cumulative_hazard s X = Inr P"
    and "cumulative_hazards s = Some ch" and "rows ch = []"
  shows "curve_rows P = []"
  using assms
  by (auto simp: predict_cumulative_hazard_def Let_def split: sum.splits if_splits prod.splits)


section \<open>The table and its weights column\<close>

lemma set_insert_key: "set (insert_key x ys) = insert x (set ys)"
  by (induction ys) auto

lemma set_foldr_insert_key: "set (foldr insert_key xs []) = set xs"
  by (induction xs) (simp_all add: set_insert_key)

lemma set_argsort: "set (argsort ks) = {..<length ks}"
proof -
  have m: "map snd (zip ks [0..<length ks]) = [0..<length ks]"
    by (rule map_snd_zip) simp
  have "set (argsort ks) = set (map snd (zip ks [0..<length ks]))"
    unfolding argsort_def by (simp only: set_map set_foldr_insert_key)
  also have "\<dots> = {..<length ks}"
    unfolding m by (simp add: atLeast0LessThan)
  finally show ?thesis .
qed

lemma find_map_cname:
  assumes "\<And>c. cname (f c) = cname c"
  shows "find (\<lambda>c. cname c = k) (map f cs) = map_option f (find (\<lambda>c. cname c = k) cs)"
  by (induction cs) (simp_all add: assms)

lemma find_filter_cname:
  assumes "k \<noteq> k'"
  shows "find (\<lambda>c. cname c = k) (filter (\<lambda>c. cname c \<noteq> k') cs) = find (\<lambda>c. cname c = k) cs"
  using assms by (induction cs) auto

lemma filter_map_cname:
  assumes "\<And>c. cname (g c) = cname c"
  shows "filter (\<lambda>c. cname c \<noteq> k) (map g cs) = map g (filter (\<lambda>c. cname c \<noteq> k) cs)"
  by (induction cs) (simp_all add: assms)

lemma filter_drops_changed:
  "filter (\<lambda>c. cname c \<noteq> wc) (map (\<lambda>c. if cname c = wc then c\<lparr>cells := ws\<rparr> else c) cs)
   = filter (\<lambda>c. cname c \<noteq> wc) cs"
  by (induction cs) simp_all

lemma sort_values_set_weights:
  assumes "wc \<noteq> k"
  shows "sort_values k (set_weights wc ws df) =
     (case sort_values k df of Inl e \<Rightarrow> Inl e
      | Inr d1 \<Rightarrow> Inr (set_weights wc (map (\<lambda>i. ws ! i) (row_order k df)) d1))"
proof -
  let ?g = "\<lambda>c. if cname c = wc then c\<lparr>cells := ws\<rparr> else c"
  have f: "find (\<lambda>c. cname c = k) (map ?g (cols df)) = map_option ?g (find (\<lambda>c. cname c = k) (cols df))"
    by (rule find_map_cname) simp
  show ?thesis
  proof (cases "find (\<lambda>c. cname c = k) (cols df)")
    case None
    with f show ?thesis by (simp add: sort_values_def set_weights_def)
  next
    case (Some tc)
    then have "cname tc = k" by (auto dest: find_Some_iff [THEN iffD1])
    with assms have "?g tc = tc" by auto
    with f Some show ?thesis
      by (simp add: sort_values_def set_weights_def row_order_def Let_def comp_def if_distrib cong: if_cong)
  qed
qed

lemma pop_set_weights:
  assumes "wc \<noteq> k"
  shows "pop k (set_weights wc ws df) =
     (case pop k df of Inl e \<Rightarrow> Inl e | Inr (c, d') \<Rightarrow> Inr (c, set_weights wc ws d'))"
proof -
  let ?g = "\<lambda>c. if cname c = wc then c\<lparr>cells := ws\<rparr> else c"
  have f: "find (\<lambda>c. cname c = k) (map ?g (cols df)) = map_option ?g (find (\<lambda>c. cname c = k) (cols df))"
    by (rule find_map_cname) simp
  have flt: "filter (\<lambda>c. cname c \<noteq> k) (map ?g (cols df)) = map ?g (filter (\<lambda>c. cname c \<noteq> k) (cols df))"
    by (rule filter_map_cname) simp
  show ?thesis
  proof (cases "find (\<lambda>c. cname c = k) (cols df)")
    case None
    with f show ?thesis by (simp add: pop_def set_weights_def)
  next
    case (Some tc)
    then have "cname tc = k" by (auto dest: find_Some_iff [THEN iffD1])
    with assms have "?g tc = tc" by auto
    with f Some flt show ?thesis
      by (simp add: pop_def set_weights_def)
  qed
qed

lemma pop_or_ones_set_weights:
  assumes "col \<noteq> Some wc"
  shows "pop_or_ones col (set_weights wc ws df) =
     (case pop_or_ones col df of Inl e \<Rightarrow> Inl e | Inr (c, d') \<Rightarrow> Inr (c, set_weights wc ws d'))"
proof (cases col)
  case None
  then show ?thesis by (simp add: pop_or_ones_def set_weights_def)
next
  case (Some k)
  with assms have "wc \<noteq> k" by auto
  from pop_set_weights [OF this] Some show ?thesis by (simp add: pop_or_ones_def)
qed

lemma pop_weights_column:
  "pop wc (set_weights wc ws df) =
     (if has_column wc df then Inr (ws, df\<lparr>cols := filter (\<lambda>c. cname c \<noteq> wc) (cols df)\<rparr>)
      else Inl (KeyError wc))"
proof -
  let ?g = "\<lambda>c. if cname c = wc then c\<lparr>cells := ws\<rparr> else c"
  have f: "find (\<lambda>c. cname c = wc) (map ?g (cols df)) = map_option ?g (find (\<lambda>c. cname c = wc) (cols df))"
    by (rule find_map_cname) simp
  have flt: "filter (\<lambda>c. cname c \<noteq> wc) (map ?g (cols df)) = filter (\<lambda>c. cname c \<noteq> wc) (cols df)"
    by (rule filter_drops_changed)
  show ?thesis
  proof (cases "find (\<lambda>c. cname c = wc) (cols df)")
    case None
    with f show ?thesis by (simp add: pop_def set_weights_def has_column_def)
  next
    case (Some tc)
    then have "cname tc = wc" by (auto dest: find_Some_iff [THEN iffD1])
    with f Some flt show ?thesis
      by (simp add: pop_def set_weights_def has_column_def)
  qed
qed

section \<open>Preprocessing a table with a weights column\<close>

lemma preprocess_set_weights:
  assumes "duration_col self = Some dc" and "weights_col self = Some wc"
    and "wc \<noteq> dc" and "event_col self \<noteq> Some wc"
  shows "preprocess_dataframe self (set_weights wc ws df) =
     (case sort_values dc df of Inl e \<Rightarrow> Inl e | Inr df1 \<Rightarrow>
      case pop dc df1 of Inl e \<Rightarrow> Inl e | Inr (T, df2) \<Rightarrow>
      case pop_or_ones (event_col self) df2 of Inl e \<Rightarrow> Inl e | Inr (E, df3) \<Rightarrow>
      if \<not> has_column wc df3 then Inl (KeyError wc) else
      case check_weights self (map (\<lambda>i. ws ! i) (row_order dc df)) of Some e \<Rightarrow> Inl e | None \<Rightarrow>
      case check_values (df3\<lparr>cols := filter (\<lambda>c. cname c \<noteq> wc) (cols df3)\<rparr>) T E of
        Some e \<Rightarrow> Inl e | None \<Rightarrow>
      case add_baseline self (df3\<lparr>cols := filter (\<lambda>c. cname c \<noteq> wc) (cols df3)\<rparr>) of
        Inl e \<Rightarrow> Inl e | Inr df5 \<Rightarrow>
      Inr (to_design df5, map fin_val T, map astype_bool E, map (\<lambda>i. ws ! i) (row_order dc df)))"
  using assms
  by (simp add: preprocess_dataframe_def sort_values_set_weights pop_set_weights
      pop_or_ones_set_weights pop_weights_column
      pop_or_ones_def [of "Some wc"]
      split: sum.splits prod.splits option.splits)


lemma astype_int_range: "- (2 ^ 63) \<le> astype_int r \<and> astype_int r < 2 ^ 63"
  by (simp add: astype_int_def)

lemma non_integral_out_of_range:
  assumes "r < - (2 ^ 63) \<or> 2 ^ 63 \<le> r"
  shows "non_integral (Fin r)"
proof -
  from astype_int_range [of r]
  have "- (2 ^ 63) \<le> real_of_int (astype_int r)" "real_of_int (astype_int r) < 2 ^ 63"
    by (simp_all add: of_int_le_iff [symmetric] of_int_less_iff [symmetric]
        del: of_int_le_iff of_int_less_iff)
  with assms show ?thesis by (auto simp: non_integral_def)
qed

lemma positive_integer_iff:
  "positive_integer c \<longleftrightarrow> (\<exists>k. c = Fin (real_of_int k) \<and> 0 < k \<and> k < 2 ^ 63)"
proof
  assume "positive_integer c"
  then obtain r where c: "c = Fin r" and r: "real_of_int (astype_int r) = r" "0 < r"
    by (cases c) (auto simp: positive_integer_def non_integral_def non_positive_def is_fin_def)
  from r have "0 < astype_int r" by linarith
  with c r astype_int_range [of r] show "\<exists>k. c = Fin (real_of_int k) \<and> 0 < k \<and> k < 2 ^ 63"
    by (intro exI [of _ "astype_int r"]) simp
next
  assume "\<exists>k. c = Fin (real_of_int k) \<and> 0 < k \<and> k < 2 ^ 63"
  then obtain k where "c = Fin (real_of_int k)" "0 < k" "k < 2 ^ 63" by blast
  then show "positive_integer c"
    by (simp add: positive_integer_def non_integral_def non_positive_def is_fin_def
        astype_int_def trunc_def)
qed

lemma check_weights_positive_integers:
  assumes "list_all positive_integer W"
  shows "check_weights self W = None"
proof -
  from assms have "list_all is_fin W" "\<not> list_ex non_integral W" "\<not> list_ex non_positive W"
    by (auto simp: positive_integer_def list_all_iff list_ex_iff)
  then show ?thesis by (simp add: check_weights_def split: option.splits)
qed

lemma check_weights_non_integral:
  assumes "weights_col self = Some wc" and "wc \<noteq> []" and "robust self = None"
    and "list_all is_fin W" and "list_ex non_integral W"
  shows "check_weights self W = Some (AttributeError ''robust'')"
  using assms by (simp add: check_weights_def)

lemma list_all_reordered:
  assumes "list_all P ws" and "set p \<subseteq> {..<length ws}"
  shows "list_all P (map (\<lambda>i. ws ! i) p)"
  using assms by (auto simp: list_all_iff)

lemma list_ex_reordered:
  assumes "list_ex P ws" and "{..<length ws} \<subseteq> set p"
  shows "list_ex P (map (\<lambda>i. ws ! i) p)"
proof -
  from assms(1) obtain i where "i < length ws" "P (ws ! i)"
    by (auto simp: list_ex_iff in_set_conv_nth)
  with assms(2) show ?thesis by (auto simp: list_ex_iff)
qed

lemma find_cname: "find (\<lambda>c. cname c = k) cs = Some c \<Longrightarrow> c \<in> set cs \<and> cname c = k"
  by (induction cs) (auto split: if_splits)

lemma set_row_order:
  assumes "well_formed df"
  shows "set (row_order dc df) \<subseteq> {..<nrows df}"
    and "has_column dc df \<Longrightarrow> set (row_order dc df) = {..<nrows df}"
proof -
  have len: "length (cells c) = nrows df" if "find (\<lambda>c. cname c = dc) (cols df) = Some c" for c
    using find_cname [OF that] assms by (simp add: well_formed_def list_all_iff)
  show "set (row_order dc df) \<subseteq> {..<nrows df}"
    by (cases "find (\<lambda>c. cname c = dc) (cols df)") (simp_all add: row_order_def set_argsort len)
  show "set (row_order dc df) = {..<nrows df}" if "has_column dc df"
    using that
    by (cases "find (\<lambda>c. cname c = dc) (cols df)")
       (simp_all add: row_order_def set_argsort len has_column_def)
qed

lemma sort_values_keeps_columns:
  assumes "has_column k df"
  shows "\<exists>d1. sort_values k df = Inr d1 \<and> (\<forall>k'. has_column k' d1 = has_column k' df)"
proof -
  from assms obtain c where c: "find (\<lambda>c. cname c = k) (cols df) = Some c"
    by (auto simp: has_column_def)
  have "find (\<lambda>c. cname c = k') (map (\<lambda>c. c\<lparr>cells := map (\<lambda>i. cells c ! i) p\<rparr>) (cols df))
        = map_option (\<lambda>c. c\<lparr>cells := map (\<lambda>i. cells c ! i) p\<rparr>) (find (\<lambda>c. cname c = k') (cols df))"
    for k' p
    by (rule find_map_cname) simp
  with c show ?thesis
    by (simp add: sort_values_def has_column_def Let_def)
qed

lemma pop_keeps_columns:
  assumes "has_column k df"
  shows "\<exists>c d'. pop k df = Inr (c, d') \<and> (\<forall>k'. k' \<noteq> k \<longrightarrow> has_column k' d' = has_column k' df)"
proof -
  from assms obtain c where c: "find (\<lambda>c. cname c = k) (cols df) = Some c"
    by (auto simp: has_column_def)
  then show ?thesis
    by (simp add: pop_def has_column_def find_filter_cname)
qed

lemma pop_or_ones_keeps_columns:
  assumes "\<forall>k. col = Some k \<longrightarrow> has_column k df"
  shows "\<exists>c d'. pop_or_ones col df = Inr (c, d')
           \<and> (\<forall>k'. col \<noteq> Some k' \<longrightarrow> has_column k' d' = has_column k' df)"
proof (cases col)
  case None
  then show ?thesis by (simp add: pop_or_ones_def)
next
  case (Some k)
  with assms have "has_column k df" by simp
  from pop_keeps_columns [OF this] Some show ?thesis
    by (auto simp: pop_or_ones_def)
qed

lemma nrows_set_weights: "nrows (set_weights wc ws df) = nrows df"
  by (simp add: set_weights_def)

lemma begin_fit_fields:
  "duration_col (begin_fit env self df dcol ecol wcol) = Some dcol"
  "event_col (begin_fit env self df dcol ecol wcol) = ecol"
  "weights_col (begin_fit env self df dcol ecol wcol) = wcol"
  "robust (begin_fit env self df dcol ecol wcol) = robust self"
  "fit_intercept (begin_fit env self df dcol ecol wcol) = fit_intercept self"
  by (simp_all add: begin_fit_def)


lemma fit_model_weights:
  "fit_model lr s Xf T E W sp = fit_model lr s Xf T E W' sp"
  by (simp add: fit_model_def fit_model_to_data_batch_def)

lemma fit_model_normalized_weights:
  assumes "coef_penalizer a = coef_penalizer b" and "smoothing_penalizer a = smoothing_penalizer b"
  shows "fit_model_normalized lr a Xn T E W sp = fit_model_normalized lr b Xn T E W' sp"
proof (cases "finite_design Xn")
  case None
  then show ?thesis by (simp add: fit_model_normalized_def)
next
  case (Some Xf)
  have "fit_model lr a Xf T E W sp = fit_model lr b Xf T E W sp"
    by (rule fit_model_penalizers [OF assms])
  also have "\<dots> = fit_model lr b Xf T E W' sp" by (rule fit_model_weights)
  finally show ?thesis using Some by (simp add: fit_model_normalized_def)
qed

lemma fit_arrays_weights:
  "fst (fit_arrays env s Xf T E W sp) = fst (fit_arrays env s Xf T E W' sp)
   \<and> snd (snd (fit_arrays env s Xf T E W sp)) = snd (snd (fit_arrays env s Xf T E W' sp))
   \<and> cumulative_hazards (fst (snd (fit_arrays env s Xf T E W sp)))
       = cumulative_hazards (fst (snd (fit_arrays env s Xf T E W' sp)))
   \<and> cumulative_variance (fst (snd (fit_arrays env s Xf T E W sp)))
       = cumulative_variance (fst (snd (fit_arrays env s Xf T E W' sp)))"
proof -
  let ?s2 = "\<lambda>W. s\<lparr>durations := Some T, event_observed := Some E, weights := Some W\<rparr>"
  let ?sd = "fix_norm_std (?s2 W') Xf (std0 Xf)"
  let ?s3 = "\<lambda>W. (?s2 W)\<lparr>norm_std := Some ?sd\<rparr>"
  have fns: "fix_norm_std (?s2 W) Xf = fix_norm_std (?s2 W') Xf"
    by (simp add: fix_norm_std_def fun_eq_iff)
  have fm: "fit_model_normalized (env_lr env) (?s3 W) Xn T E W sp
          = fit_model_normalized (env_lr env) (?s3 W') Xn T E W' sp" for Xn
    by (rule fit_model_normalized_weights) simp_all
  obtain res evs where
    r: "fit_model_normalized (env_lr env) (?s3 W') (env_normalize env Xf 0 ?sd) T E W' sp = (res, evs)"
    by (cases "fit_model_normalized (env_lr env) (?s3 W') (env_normalize env Xf 0 ?sd) T E W' sp")
  show ?thesis
  proof (cases res)
    case (Inl e)
    with r fm [of "env_normalize env Xf 0 ?sd"] show ?thesis
      by (simp add: fit_arrays_def Let_def fns)
  next
    case (Inr p)
    obtain ch cv where p: "p = (ch, cv)" by (cases p)
    with Inr r fm [of "env_normalize env Xf 0 ?sd"] show ?thesis
      by (simp add: fit_arrays_def Let_def fns compute_confidence_intervals_def
          predict_cumulative_hazard_def covariate_matrix_def
          split: sum.splits prod.splits option.splits)
  qed
qed


lemma weighted_frame_facts:
  "well_formed weighted_frame" "has_column ''T'' weighted_frame" "has_column ''w'' weighted_frame"
  "has_column ''E'' weighted_frame" "nrows weighted_frame = 4"
  by (simp_all add: weighted_frame_def well_formed_def has_column_def)

lemma fractional_weights_facts:
  "list_all is_fin fractional_weights" "list_ex non_integral fractional_weights"
  "length fractional_weights = 4"
  by (simp_all add: fractional_weights_def is_fin_def non_integral_def astype_int_def trunc_def)


lemma preprocess_fractional_negative:
  "preprocess_dataframe
     (begin_fit example_env default_fitter (set_weights ''w'' fractional_negative_weights weighted_frame)
        ''T'' (Some ''E'') (Some ''w''))
     (set_weights ''w'' fractional_negative_weights weighted_frame)
   = Inl (AttributeError ''robust'')"
  by code_simp

lemma preprocess_negative:
  "preprocess_dataframe
     (begin_fit example_env default_fitter (set_weights ''w'' negative_weights weighted_frame)
        ''T'' (Some ''E'') (Some ''w''))
     (set_weights ''w'' negative_weights weighted_frame)
   = Inl (ValueError ''values in weight column w must be positive.'')"
  by code_simp

lemma preprocess_zero:
  "preprocess_dataframe
     (begin_fit example_env default_fitter (set_weights ''w'' zero_weights weighted_frame)
        ''T'' (Some ''E'') (Some ''w''))
     (set_weights ''w'' zero_weights weighted_frame)
   = Inl (ValueError ''values in weight column w must be positive.'')"
  by code_simp


lemma integer_weights_facts:
  "list_all positive_integer unit_weights" "list_all positive_integer other_weights"
  "length unit_weights = 4" "length other_weights = 4"
  by (simp_all add: unit_weights_def other_weights_def positive_integer_def is_fin_def
      non_integral_def non_positive_def astype_int_def trunc_def)


section \<open>Which exceptions the numeric part of \<^verbatim>\<open>fit\<close> can raise\<close>

lemma loop_body_Raise:
  "loop_body lr self T E sp n d nd i t s = (Raise e, s') \<Longrightarrow> e = UnboundLocalError ''V''"
  by (auto simp: loop_body_def Let_def split: option.splits if_splits)

lemma for_loop_error:
  "for_loop lr self T E sp n d nd steps s = (Some e, s') \<Longrightarrow> e = UnboundLocalError ''V''"
proof (induction steps arbitrary: s)
  case Nil
  then show ?case by simp
next
  case (Cons st steps)
  obtain i t where st: "st = (i, t)" by (cases st)
  obtain c s1 where body: "loop_body lr self T E sp n d nd i t s = (c, s1)"
    by (cases "loop_body lr self T E sp n d nd i t s")
  show ?case
  proof (cases c)
    case Continue
    with body st Cons.prems have "for_loop lr self T E sp n d nd steps s1 = (Some e, s')" by simp
    then show ?thesis by (rule Cons.IH)
  next
    case Break
    with body st Cons.prems show ?thesis by simp
  next
    case (Raise e')
    with body st Cons.prems have "e' = e" by simp
    with body Raise loop_body_Raise show ?thesis by blast
  qed
qed

lemma fit_model_error:
  assumes "fit_model lr self Xf T E W sp = (Inl e, evs)"
  shows "e = UnboundLocalError ''V''"
proof -
  obtain r s where run: "run_loop lr self \<lparr>ncols = length (names Xf), arr = xrows Xf\<rparr> T E sp = (r, s)"
    by (cases "run_loop lr self \<lparr>ncols = length (names Xf), arr = xrows Xf\<rparr> T E sp")
  with assms have "r = Some e"
    by (auto simp: fit_model_def fit_model_to_data_batch_def Let_def split: option.splits)
  with run show ?thesis
    by (auto simp: run_loop_def Let_def dest: for_loop_error)
qed

lemma select_columns_error: "select_columns order Xf = Inl e \<Longrightarrow> \<exists>k. e = KeyError k"
  by (auto simp: select_columns_def split: option.splits)

lemma predict_frame_error:
  assumes "predict_cumulative_hazard s (DataFrameX Xf) = Inl e"
    and "\<And>ch. cumulative_hazards s = Some ch \<Longrightarrow> one_baseline s (columns ch)"
  shows "\<not> input_error e"
proof (cases "cumulative_hazards s")
  case None
  with assms(1) show ?thesis by (auto simp: predict_cumulative_hazard_def input_error_def)
next
  case (Some ch)
  note ob = assms(2) [OF Some]
  have sel: "(\<exists>k. select_columns order Xf = Inl (KeyError k)) \<or> (\<exists>M. select_columns order Xf = Inr M)"
    for order
    by (cases "select_columns order Xf") (auto dest: select_columns_error)
  show ?thesis
  proof (cases "fit_intercept s")
    case True
    from sel [of "filter (\<lambda>c. c \<noteq> ''baseline'') (columns ch)"] assms(1) Some True ob show ?thesis
      by (auto simp: predict_cumulative_hazard_def covariate_matrix_def input_error_def Let_def
          one_baseline_def split: if_splits)
  next
    case False
    from sel [of "columns ch"] assms(1) Some False show ?thesis
      by (auto simp: predict_cumulative_hazard_def covariate_matrix_def input_error_def Let_def
          split: if_splits)
  qed
qed

lemma fit_model_columns:
  "fit_model lr self Xf T E W sp = (Inr (ch, cv), evs) \<Longrightarrow> columns ch = names Xf"
  by (auto simp: fit_model_def Let_def split: prod.splits sum.splits)

lemma fit_model_normalized_error:
  assumes "fit_model_normalized lr self Xn T E W sp = (Inl e, evs)"
  shows "\<not> input_error e"
proof (cases "finite_design Xn")
  case None
  with assms have "e = NonFiniteFloat"
    by (auto simp: fit_model_normalized_def split: if_splits)
  then show ?thesis by (simp add: input_error_def)
next
  case (Some Xf)
  with assms have "fit_model lr self Xf T E W sp = (Inl e, evs)"
    by (simp add: fit_model_normalized_def)
  then have "e = UnboundLocalError ''V''" by (rule fit_model_error)
  then show ?thesis by (simp add: input_error_def)
qed

lemma fit_model_normalized_columns:
  assumes "fit_model_normalized lr self Xn T E W sp = (Inr (ch, cv), evs)"
  shows "columns ch = fnames Xn"
proof (cases "finite_design Xn")
  case None
  with assms show ?thesis
    by (auto simp: fit_model_normalized_def no_rows_def split: if_splits)
next
  case (Some Xf)
  then have "names Xf = fnames Xn" by (auto simp: finite_design_def)
  moreover from Some assms have "fit_model lr self Xf T E W sp = (Inr (ch, cv), evs)"
    by (simp add: fit_model_normalized_def)
  ultimately show ?thesis by (simp add: fit_model_columns)
qed

lemma fit_arrays_error:
  assumes "fit_arrays env s Xf T E W sp = (Some e, s', evs)"
    and "keeps_names env" and "one_baseline s (names Xf)"
  shows "\<not> input_error e"
proof -
  let ?s2 = "s\<lparr>durations := Some T, event_observed := Some E, weights := Some W\<rparr>"
  let ?sd = "fix_norm_std ?s2 Xf (std0 Xf)"
  let ?s3 = "?s2\<lparr>norm_std := Some ?sd\<rparr>"
  obtain res ev where
    r: "fit_model_normalized (env_lr env) ?s3 (env_normalize env Xf 0 ?sd) T E W sp = (res, ev)"
    by (cases "fit_model_normalized (env_lr env) ?s3 (env_normalize env Xf 0 ?sd) T E W sp")
  show ?thesis
  proof (cases res)
    case (Inl e')
    with r fit_model_normalized_error have "\<not> input_error e'" by blast
    moreover from assms(1) r Inl have "e = e'" by (simp add: fit_arrays_def Let_def)
    ultimately show ?thesis by simp
  next
    case (Inr p)
    obtain ch cv where p: "p = (ch, cv)" by (cases p)
    from r Inr p assms(2) have cols: "columns ch = names Xf"
      by (auto dest: fit_model_normalized_columns simp: keeps_names_def)
    show ?thesis
    proof (cases "divide_columns ch ?sd")
      case None
      with assms(1) r Inr p show ?thesis
        by (auto simp: fit_arrays_def Let_def input_error_def)
    next
      case hz: (Some ch')
      show ?thesis
      proof (cases "divide_columns cv ?sd")
        case None
        with assms(1) r Inr p hz show ?thesis
          by (auto simp: fit_arrays_def Let_def input_error_def)
      next
        case vr: (Some cv')
        let ?s4 = "?s3\<lparr>cumulative_hazards := Some ch', cumulative_variance := Some cv'\<rparr>"
        obtain ci where ci: "compute_confidence_intervals env ?s4 = Inr ci"
          by (simp add: compute_confidence_intervals_def Let_def)
        let ?s5 = "?s4\<lparr>confidence_intervals := Some ci\<rparr>"
        have ob: "one_baseline ?s5 (columns ch'')" if "cumulative_hazards ?s5 = Some ch''" for ch''
          using that assms(3) cols divide_columns_fields(2) [OF hz]
          by (auto simp: one_baseline_def)
        show ?thesis
        proof (cases "predict_cumulative_hazard ?s5 (DataFrameX Xf)")
          case (Inl e')
          with assms(1) r Inr p hz vr ci have "e' = e" by (simp add: fit_arrays_def Let_def)
          with Inl predict_frame_error [of ?s5 Xf e] ob show ?thesis by blast
        next
          case (Inr P)
          with assms(1) r \<open>res = Inr p\<close> p hz vr ci show ?thesis
            by (auto simp: fit_arrays_def Let_def input_error_def split: if_splits)
        qed
      qed
    qed
  qed
qed

lemma add_baseline_names:
  assumes "add_baseline s df = Inr df5"
  shows "one_baseline s (map cname (cols df5))"
proof (cases "fit_intercept s")
  case False
  then show ?thesis by (simp add: one_baseline_def)
next
  case True
  with assms have fresh: "''baseline'' \<notin> set (map cname (cols df))"
    and df5: "map cname (cols df5) = map cname (cols df) @ [''baseline'']"
    by (auto simp: add_baseline_def split: if_splits)
  have "c \<noteq> ''baseline''" if "c \<in> set (map cname (cols df))" for c
    using that fresh by blast
  then have "filter (\<lambda>c. c \<noteq> ''baseline'') (map cname (cols df)) = map cname (cols df)"
    by (intro filter_True) blast
  with True df5 show ?thesis by (simp add: one_baseline_def)
qed

lemma preprocess_names:
  assumes "preprocess_dataframe s df = Inr (Xf, T, E, W)"
  shows "one_baseline s (names Xf)"
proof -
  from assms obtain df4 df5 where "add_baseline s df4 = Inr df5" "Xf = to_design df5"
    by (auto simp: preprocess_dataframe_def split: option.splits sum.splits prod.splits)
  with add_baseline_names show ?thesis by (auto simp: to_design_def)
qed

section \<open>The fit of a table with no observed event\<close>

lemma fit_model_normalized_variance:
  assumes "fit_model_normalized lr self Xn T E W sp = (Inr (ch, cv), evs)" and "solver_shape lr"
  shows "nonneg_rows (rows cv) \<and> nondecreasing_rows (rows cv)"
proof (cases "finite_design Xn")
  case None
  with assms(1) have "rows cv = []"
    by (auto simp: fit_model_normalized_def no_rows_def split: if_splits)
  then show ?thesis by (simp add: nonneg_rows_def nondecreasing_rows_def)
next
  case (Some Xf)
  with assms(1) have "fit_model lr self Xf T E W sp = (Inr (ch, cv), evs)"
    by (simp add: fit_model_normalized_def)
  then show ?thesis using assms(2) by (rule fit_model_variance)
qed

lemma predict_training_frame:
  assumes "cumulative_hazards s = Some ch" and "columns ch = names Xf"
    and "one_baseline s (names Xf)"
  shows "\<exists>P. predict_cumulative_hazard s (DataFrameX Xf) = Inr P"
proof -
  have sel: "find (\<lambda>c. c \<notin> set (names Xf)) (filter Q (names Xf)) = None" for Q
    by (simp add: find_None_iff)
  have sel': "find (\<lambda>c. c \<notin> set (names Xf)) (names Xf) = None"
    by (simp add: find_None_iff)
  show ?thesis
  proof (cases "fit_intercept s")
    case True
    with assms show ?thesis
      by (simp add: predict_cumulative_hazard_def covariate_matrix_def select_columns_def sel
          one_baseline_def Let_def)
  next
    case False
    with assms show ?thesis
      by (simp add: predict_cumulative_hazard_def covariate_matrix_def select_columns_def sel'
          Let_def)
  qed
qed

lemma fit_all_censored:
  assumes "preprocess_dataframe (begin_fit env self df dcol ecol wcol) df = Inr (Xf, T, E, W)"
    and "list_all (\<lambda>e. \<not> e) E" and "keeps_names env"
  shows "\<exists>self'. fit env self df dcol ecol wcol sp
             = (Some (IndexError ''single positional indexer is out-of-bounds''), self', [])
     \<and> cumulative_hazards self' = Some (no_rows (names Xf))
     \<and> cumulative_variance self' = Some (no_rows (names Xf))
     \<and> predicted_hazards self' = predicted_hazards self"
proof -
  let ?s1 = "begin_fit env self df dcol ecol wcol"
  let ?s2 = "?s1\<lparr>durations := Some T, event_observed := Some E, weights := Some W\<rparr>"
  let ?sd = "fix_norm_std ?s2 Xf (std0 Xf)"
  let ?s3 = "?s2\<lparr>norm_std := Some ?sd\<rparr>"
  let ?ch = "no_rows (names Xf)"
  let ?s4 = "?s3\<lparr>cumulative_hazards := Some ?ch, cumulative_variance := Some ?ch\<rparr>"
  have cols: "fnames (env_normalize env Xf 0 ?sd) = names Xf"
    using assms(3) by (simp add: keeps_names_def)
  obtain ci where ci: "compute_confidence_intervals env ?s4 = Inr ci"
    by (simp add: compute_confidence_intervals_def Let_def)
  let ?s5 = "?s4\<lparr>confidence_intervals := Some ci\<rparr>"
  have "one_baseline ?s1 (names Xf)" by (rule preprocess_names [OF assms(1)])
  then have ob: "one_baseline ?s5 (names Xf)" by (simp add: one_baseline_def)
  have "\<exists>P. predict_cumulative_hazard ?s5 (DataFrameX Xf) = Inr P"
    by (rule predict_training_frame [of ?s5 ?ch Xf, OF _ _ ob]) (simp_all add: no_rows_def)
  then obtain P where P: "predict_cumulative_hazard ?s5 (DataFrameX Xf) = Inr P" by blast
  have none: "curve_rows P = []"
    by (rule predict_no_rows [OF P, of ?ch]) (simp_all add: no_rows_def)
  have ph: "predicted_hazards ?s1 = predicted_hazards self" by (simp add: begin_fit_def)
  show ?thesis
    unfolding fit_def fit_arrays_def
    by (simp add: Let_def assms(1) fit_model_normalized_all_censored [OF assms(2)] cols
        divide_columns_no_rows ci P none ph)
qed

lemma censored_preprocess:
  "preprocess_dataframe (begin_fit example_env default_fitter censored_frame ''T'' (Some ''E'') None)
     censored_frame
   = Inr (\<lparr>names = [''x'', ''baseline''], xrows = [[0, 1], [0, 1], [0, 1], [4, 1]]\<rparr>,
          [1, 2, 3, 4], [False, False, False, False], [Fin 1, Fin 1, Fin 1, Fin 1])"
  by code_simp

lemma constant_preprocess:
  "preprocess_dataframe (begin_fit example_env default_fitter constant_frame ''T'' (Some ''E'') None)
     constant_frame
   = Inr (\<lparr>names = [''x'', ''baseline''], xrows = [[1, 1], [1, 1], [1, 1]]\<rparr>,
          [1, 2, 3], [False, False, False], [Fin 1, Fin 1, Fin 1])"
  by code_simp

lemma constant_normalized:
  "std0 \<lparr>names = [''x'', ''baseline''], xrows = [[1, 1], [1, 1], [1, 1]]\<rparr> = [Fin 0, Fin 0]"
  "finite_design (env_normalize example_env
       \<lparr>names = [''x'', ''baseline''], xrows = [[1, 1], [1, 1], [1, 1]]\<rparr> 0 [Fin 0, Fin 1]) = None"
  by (simp_all add: std0_def std_col_def column_of_def Let_def upt_rec [of 0]
      example_env_def plain_normalize_def finite_design_def finite_rows_def fl_div_def is_fin_def)

lemma example_env_keeps_names: "keeps_names example_env"
  by (simp add: keeps_names_def example_env_def plain_normalize_def)

section \<open>The early stop\<close>




section \<open>Rows and time index of the result\<close>

text \<open>
  C2, as amended. The raw hazard and variance matrices have one row for every unique death
  time, whether or not the loop reached that step: the rows from \<open>steps_completed\<close> on are
  zero rows. The time index of both cumulative frames is the whole sorted list of the
  distinct times at which an event was observed; the early stop does not shorten it.
\<close>

theorem one_row_per_death_time:
  assumes "fit_model lr self Xf T E wts sp = (Inr (ch, cv), evs)"
  shows "\<exists>s. run_loop lr self \<lparr>ncols = length (names Xf), arr = xrows Xf\<rparr> T E sp = (None, s)
     \<and> rows ch = cumsum (hazards s) \<and> rows cv = cumsum (variance_hazards s)
     \<and> length (hazards s) = length (unique_death_times T E)
     \<and> length (variance_hazards s) = length (unique_death_times T E)
     \<and> steps_completed s \<le> length (unique_death_times T E)
     \<and> (\<forall>j. steps_completed s \<le> j \<and> j < length (unique_death_times T E) \<longrightarrow>
           hazards s ! j = zeros (length (names Xf)) \<and> variance_hazards s ! j = zeros (length (names Xf)))
     \<and> index ch = unique_death_times T E \<and> index cv = unique_death_times T E
     \<and> length (rows ch) = length (index ch) \<and> length (rows cv) = length (index cv)
     \<and> sorted (index ch) \<and> distinct (index ch)
     \<and> set (index ch) = {t. (t, True) \<in> set (zip T E)}"
proof -
  let ?Xa = "\<lparr>ncols = length (names Xf), arr = xrows Xf\<rparr>"
  obtain r s where run: "run_loop lr self ?Xa T E sp = (r, s)"
    by (cases "run_loop lr self ?Xa T E sp")
  with assms have r: "r = None" and ch: "ch = \<lparr>index = unique_death_times T E, columns = names Xf, rows = cumsum (hazards s)\<rparr>"
    and cv: "cv = \<lparr>index = unique_death_times T E, columns = names Xf, rows = cumsum (variance_hazards s)\<rparr>"
    by (auto simp: fit_model_def fit_model_to_data_batch_def Let_def split: option.splits)
  note rws = run_loop_rows [OF run]
  show ?thesis
    apply (rule exI [of _ s])
    using run r ch cv rws unique_death_times_props [of T E]
    by (simp add: length_cumsum)
qed



theorem one_row_per_death_time_witness:
  "four_fit_model = (Inr (fst (projr (fst four_fit_model)), snd (projr (fst four_fit_model))), [])
   \<and> index (fst (projr (fst four_fit_model))) = [1, 2, 3, 4]
   \<and> length (rows (fst (projr (fst four_fit_model)))) = 4
   \<and> length (rows (snd (projr (fst four_fit_model)))) = 4"
proof -
  have h: "fit_model ridge_regression default_fitter four_design four_times
             (replicate 4 True) (replicate 4 (Fin 1)) False
           = (Inr (fst (projr (fst four_fit_model)), snd (projr (fst four_fit_model))), [])"
    unfolding four_fit_model_def [symmetric] by (simp add: four_fit_model_value)
  have ix: "index (fst (projr (fst four_fit_model))) = [1, 2, 3, 4]"
    by (simp add: four_fit_model_value)
  from one_row_per_death_time [OF h]
  have "length (rows (fst (projr (fst four_fit_model)))) = length (index (fst (projr (fst four_fit_model))))"
       "length (rows (snd (projr (fst four_fit_model)))) = length (index (fst (projr (fst four_fit_model))))"
    by auto
  with h ix show ?thesis by (simp add: four_fit_model_def)
qed


text \<open>
  C2 as stated fails on the four subjects: the loop stops after two steps, and the matrices
  and the index have four rows.
\<close>

theorem rows_not_truncated_counterexample:
  "fst four_run = None \<and> steps_completed (snd four_run) = 2
   \<and> length (hazards (snd four_run)) = 4 \<and> length (variance_hazards (snd four_run)) = 4
   \<and> length (hazards (snd four_run)) \<noteq> steps_completed (snd four_run)
   \<and> index (fst (projr (fst four_fit_model))) = [1, 2, 3, 4]
   \<and> index (snd (projr (fst four_fit_model))) = [1, 2, 3, 4]"
  by (simp add: four_run_value four_fit_model_value steps_completed_def)


section \<open>Monotone cumulative variance\<close>

text \<open>
  C3, as amended. When \<^verbatim>\<open>fit\<close> returns, \<^verbatim>\<open>cumulative_variance_\<close> is non-negative and each of
  its columns is non-decreasing down the time index, for every solver that answers with one
  row per coefficient. Nothing of the kind is said about \<^verbatim>\<open>cumulative_hazards_\<close>.
\<close>

theorem cumulative_variance_monotone:
  assumes "fit env self df dcol ecol wcol sp = (None, self', evs)"
    and "solver_shape (env_lr env)"
  shows "\<exists>cv. cumulative_variance self' = Some cv
            \<and> nonneg_rows (rows cv) \<and> nondecreasing_rows (rows cv)"
proof -
  from assms(1) obtain selfa selfb Xf T E W ch cv cv' where
      fm: "fit_model_normalized (env_lr env) selfb
             (env_normalize env Xf 0 (fix_norm_std selfa Xf (std0 Xf))) T E W sp = (Inr (ch, cv), evs)"
    and dv: "divide_columns cv (fix_norm_std selfa Xf (std0 Xf)) = Some cv'"
    and cv: "cumulative_variance self' = Some cv'"
    by (auto simp: fit_def fit_arrays_def Let_def split: sum.splits option.splits prod.splits if_splits)
  from fit_model_normalized_variance [OF fm assms(2)]
  have "nonneg_rows (rows cv') \<and> nondecreasing_rows (rows cv')"
    by (intro divide_columns_monotone [OF dv _ _ std_nonneg]) simp_all
  with cv show ?thesis by simp
qed

theorem cumulative_variance_monotone_witness:
  "four_fit = (None, fst (snd four_fit), snd (snd four_fit))
   \<and> solver_shape (env_lr example_env)
   \<and> nonneg_rows (rows (the (cumulative_variance (fst (snd four_fit)))))
   \<and> nondecreasing_rows (rows (the (cumulative_variance (fst (snd four_fit)))))"
proof -
  have h: "four_fit = (None, fst (snd four_fit), snd (snd four_fit))"
    using four_fit_value by (simp add: prod_eq_iff)
  have sh: "solver_shape (env_lr example_env)"
    by (simp add: example_env_def ridge_regression_shape)
  from cumulative_variance_monotone [OF h [unfolded four_fit_def] sh]
  obtain cv where "cumulative_variance (fst (snd four_fit)) = Some cv"
    "nonneg_rows (rows cv)" "nondecreasing_rows (rows cv)"
    unfolding four_fit_def by blast
  with h sh show ?thesis by simp
qed


text \<open>
  C3 as stated fails on the four subjects: the covariate's cumulative hazard goes from
  -1/12 down to -5/24.
\<close>

theorem hazards_not_monotone_counterexample:
  "fst four_fit = None
   \<and> rows (the (cumulative_hazards (fst (snd four_fit)))) =
       [[- (1 / 12), 1 / 3], [- (5 / 24), 5 / 6], [- (5 / 24), 5 / 6], [- (5 / 24), 5 / 6]]
   \<and> \<not> nondecreasing_rows (rows (the (cumulative_hazards (fst (snd four_fit)))))"
  by (simp add: four_fit_value nondecreasing_rows_def)

section \<open>A step at which the solver fails\<close>

text \<open>
  C1 does not hold of the code. On the four subjects with tied durations the solver fails
  at step 1: the hazard row is zero and the warning names step 1 and time 2, but \<^verbatim>\<open>V\<close> still
  holds the matrix of step 0, and the variance row is 1/4, 0 instead of zero. On the two
  subjects with a constant covariate the solver fails at step 0, where \<^verbatim>\<open>V\<close> was never
  bound: the loop ends with an UnboundLocalError, and so does \<^verbatim>\<open>fit\<close>.
\<close>

theorem failed_step_reuses_old_V:
  "ridge_regression [[0, 0], [0, 0], [0, 0], [2, 1]] [False, False, False, True] 0 0 [- (1 / 2), 1] = None
   \<and> tied_run = (Inr ([[- (1 / 2), 1], [0, 0]], [[1 / 12, 1 / 3], [1 / 4, 0]]),
                 [ConvergenceWarning 1 2])
   \<and> flat_run = (Inl (UnboundLocalError ''V''), [ConvergenceWarning 0 1])
   \<and> fst flat_fit = Some (UnboundLocalError ''V'')
   \<and> snd (snd flat_fit) = [ConvergenceWarning 0 1]"
proof -
  have "ridge_regression [[0, 0], [0, 0], [0, 0], [2, 1]] [False, False, False, True] 0 0 [- (1 / 2), 1] = None"
    by code_simp
  with tied_run_value flat_run_value flat_fit_value show ?thesis by simp
qed

section \<open>Survival curves\<close>






section \<open>A dataset with no observed event\<close>

text \<open>
  C6 does not hold of the code. On the four subjects with no event observed \<^verbatim>\<open>fit\<close> assigns
  \<^verbatim>\<open>cumulative_hazards_\<close> and \<^verbatim>\<open>cumulative_variance_\<close> with an empty time index and no rows, as
  the claim has it, and then raises IndexError: its last line takes the last row of a
  prediction that has none. \<^verbatim>\<open>_predicted_hazards_\<close> is not assigned and no fitted model is
  returned. The same happens on three censored subjects with a constant covariate, whose
  standard deviation is zero.
\<close>

theorem all_censored_fit_raises_IndexError:
  "censored_fit = (Some (IndexError ''single positional indexer is out-of-bounds''),
                   fst (snd censored_fit), [])
   \<and> cumulative_hazards (fst (snd censored_fit))
       = Some \<lparr>index = [], columns = [''x'', ''baseline''], rows = []\<rparr>
   \<and> cumulative_variance (fst (snd censored_fit))
       = Some \<lparr>index = [], columns = [''x'', ''baseline''], rows = []\<rparr>
   \<and> predicted_hazards (fst (snd censored_fit)) = None
   \<and> constant_fit = (Some (IndexError ''single positional indexer is out-of-bounds''),
                     fst (snd constant_fit), [])
   \<and> cumulative_hazards (fst (snd constant_fit))
       = Some \<lparr>index = [], columns = [''x'', ''baseline''], rows = []\<rparr>
   \<and> cumulative_variance (fst (snd constant_fit))
       = Some \<lparr>index = [], columns = [''x'', ''baseline''], rows = []\<rparr>"
proof -
  have ph: "predicted_hazards default_fitter = None" by (simp add: default_fitter_def blank_def)
  from fit_all_censored [OF censored_preprocess _ example_env_keeps_names, of False]
  obtain s where s: "censored_fit
         = (Some (IndexError ''single positional indexer is out-of-bounds''), s, [])"
    "cumulative_hazards s = Some \<lparr>index = [], columns = [''x'', ''baseline''], rows = []\<rparr>"
    "cumulative_variance s = Some \<lparr>index = [], columns = [''x'', ''baseline''], rows = []\<rparr>"
    "predicted_hazards s = None"
    unfolding censored_fit_def by (auto simp: no_rows_def ph)
  have a: "censored_fit = (Some (IndexError ''single positional indexer is out-of-bounds''),
                   fst (snd censored_fit), [])
   \<and> cumulative_hazards (fst (snd censored_fit))
       = Some \<lparr>index = [], columns = [''x'', ''baseline''], rows = []\<rparr>
   \<and> cumulative_variance (fst (snd censored_fit))
       = Some \<lparr>index = [], columns = [''x'', ''baseline''], rows = []\<rparr>
   \<and> predicted_hazards (fst (snd censored_fit)) = None"
    by (simp add: s)
  from fit_all_censored [OF constant_preprocess _ example_env_keeps_names, of False]
  obtain c where c: "constant_fit
         = (Some (IndexError ''single positional indexer is out-of-bounds''), c, [])"
    "cumulative_hazards c = Some \<lparr>index = [], columns = [''x'', ''baseline''], rows = []\<rparr>"
    "cumulative_variance c = Some \<lparr>index = [], columns = [''x'', ''baseline''], rows = []\<rparr>"
    unfolding constant_fit_def by (auto simp: no_rows_def)
  have b: "constant_fit = (Some (IndexError ''single positional indexer is out-of-bounds''),
                     fst (snd constant_fit), [])
   \<and> cumulative_hazards (fst (snd constant_fit))
       = Some \<lparr>index = [], columns = [''x'', ''baseline''], rows = []\<rparr>
   \<and> cumulative_variance (fst (snd constant_fit))
       = Some \<lparr>index = [], columns = [''x'', ''baseline''], rows = []\<rparr>"
    by (simp add: c)
  from a b show ?thesis by blast
qed

section \<open>Weights that are not whole numbers\<close>

text \<open>
  C10. Take a fitter on which nobody has set \<^verbatim>\<open>robust\<close>, and a table that has the duration
  column, the event column if one is named, and a weights column with a non-empty name,
  whose weights are finite numbers of which at least one is not a whole number (or is one
  that does not fit a 64-bit integer, which the cast does not give back either). Then
  \<^verbatim>\<open>fit\<close> raises AttributeError for \<^verbatim>\<open>robust\<close>, leaves the fitter as the opening assignments
  of \<^verbatim>\<open>fit\<close> made it, and has emitted no warning.
\<close>

theorem non_integral_weight_reads_robust:
  assumes "robust self = None" and "wc \<noteq> []" and "wc \<noteq> dcol" and "ecol \<noteq> Some wc"
    and "well_formed df" and "length ws = nrows df"
    and "has_column dcol df" and "has_column wc df"
    and "\<forall>ec. ecol = Some ec \<longrightarrow> has_column ec df \<and> ec \<noteq> dcol"
    and "list_all is_fin ws" and "list_ex non_integral ws"
  shows "fit env self (set_weights wc ws df) dcol ecol (Some wc) sp
       = (Some (AttributeError ''robust''),
          begin_fit env self (set_weights wc ws df) dcol ecol (Some wc), [])"
proof -
  let ?self1 = "begin_fit env self (set_weights wc ws df) dcol ecol (Some wc)"
  let ?W = "map (\<lambda>i. ws ! i) (row_order dcol df)"
  from sort_values_keeps_columns [OF assms(7)] obtain df1 where
    df1: "sort_values dcol df = Inr df1" "\<And>k. has_column k df1 = has_column k df" by blast
  from pop_keeps_columns [of dcol df1] df1(2) assms(7) obtain T df2 where
    df2: "pop dcol df1 = Inr (T, df2)" "\<And>k. k \<noteq> dcol \<Longrightarrow> has_column k df2 = has_column k df"
    by auto
  have "\<forall>k. ecol = Some k \<longrightarrow> has_column k df2" using assms(9) df2(2) by auto
  from pop_or_ones_keeps_columns [OF this] obtain E df3 where
    df3: "pop_or_ones ecol df2 = Inr (E, df3)"
      "\<And>k. ecol \<noteq> Some k \<Longrightarrow> has_column k df3 = has_column k df2" by blast
  have wc3: "has_column wc df3" using df3(2) [of wc] df2(2) [of wc] assms(3,4,8) by simp
  have fin: "list_all is_fin ?W"
    using assms(10) set_row_order(1) [OF assms(5), of dcol] assms(6)
    by (intro list_all_reordered) simp_all
  have ex: "list_ex non_integral ?W"
    using assms(11) set_row_order(2) [OF assms(5) assms(7)] assms(6)
    by (intro list_ex_reordered) simp_all
  have "check_weights ?self1 ?W = Some (AttributeError ''robust'')"
    by (rule check_weights_non_integral [of _ wc]) (simp_all add: begin_fit_fields assms fin ex)
  then have "preprocess_dataframe ?self1 (set_weights wc ws df) = Inl (AttributeError ''robust'')"
    by (subst preprocess_set_weights [of _ dcol wc])
       (simp_all add: begin_fit_fields assms(3,4) df1 df2 df3 wc3)
  then show ?thesis by (simp add: fit_def Let_def)
qed

theorem non_integral_weight_reads_robust_witness:
  "robust default_fitter = None \<and> well_formed weighted_frame
   \<and> has_column ''T'' weighted_frame \<and> has_column ''w'' weighted_frame
   \<and> has_column ''E'' weighted_frame
   \<and> list_all is_fin fractional_weights \<and> list_ex non_integral fractional_weights
   \<and> fst (fit_weighted fractional_weights) = Some (AttributeError ''robust'')
   \<and> snd (snd (fit_weighted fractional_weights)) = []"
proof -
  have r: "robust default_fitter = None" by (simp add: default_fitter_def blank_def)
  have e: "\<forall>ec. Some ''E'' = Some ec \<longrightarrow> has_column ec weighted_frame \<and> ec \<noteq> ''T''"
    by (simp add: weighted_frame_facts)
  have "fit example_env default_fitter (set_weights ''w'' fractional_weights weighted_frame)
          ''T'' (Some ''E'') (Some ''w'') False
        = (Some (AttributeError ''robust''),
           begin_fit example_env default_fitter (set_weights ''w'' fractional_weights weighted_frame)
             ''T'' (Some ''E'') (Some ''w''), [])"
    by (rule non_integral_weight_reads_robust [OF r _ _ _ weighted_frame_facts(1) _
          weighted_frame_facts(2) weighted_frame_facts(3) e fractional_weights_facts(1,2)])
       (simp_all add: weighted_frame_facts fractional_weights_facts)
  then have "fst (fit_weighted fractional_weights) = Some (AttributeError ''robust'')"
    "snd (snd (fit_weighted fractional_weights)) = []"
    by (simp_all add: fit_weighted_def)
  with r weighted_frame_facts fractional_weights_facts show ?thesis by simp
qed


section \<open>Weights that are not positive\<close>

text \<open>
  C7 does not hold of the code. With weights 1/2, -1, 1, 1 the column holds a negative
  value, and \<^verbatim>\<open>fit\<close> raises AttributeError for \<^verbatim>\<open>robust\<close>, not ValueError: the test for whole
  numbers comes first and reads the attribute that is never set. With weights 1, -1, 1, 1
  the ValueError is raised as the claim has it.
\<close>

theorem fractional_negative_weights_raise_AttributeError:
  "list_ex non_positive fractional_negative_weights
   \<and> fst (fit_weighted fractional_negative_weights) = Some (AttributeError ''robust'')
   \<and> fst (fit_weighted negative_weights)
       = Some (ValueError ''values in weight column w must be positive.'')"
proof -
  have "list_ex non_positive fractional_negative_weights"
    by (simp add: fractional_negative_weights_def non_positive_def)
  moreover have "fst (fit_weighted fractional_negative_weights) = Some (AttributeError ''robust'')"
    by (simp add: fit_weighted_def fit_def Let_def preprocess_fractional_negative)
  moreover have "fst (fit_weighted negative_weights)
       = Some (ValueError ''values in weight column w must be positive.'')"
    by (simp add: fit_weighted_def fit_def Let_def preprocess_negative)
  ultimately show ?thesis by simp
qed

section \<open>The weights do not reach the solver\<close>

text \<open>
  C9. Take a table in which every column has one cell per row, and two columns of weights
  for it, each of positive integers: positive whole numbers that fit a 64-bit integer, as
  the cast \<^verbatim>\<open>W.astype(int)\<close> of the weights check has them. Fitting the table with the one or
  with the other
  ends the same way (the same exception or none), with the same warnings, the same
  \<^verbatim>\<open>cumulative_hazards_\<close> and the same \<^verbatim>\<open>cumulative_variance_\<close>.
\<close>

theorem weights_do_not_change_the_fit:
  assumes "well_formed df" and "length ws1 = nrows df" and "length ws2 = nrows df"
    and "list_all positive_integer ws1" and "list_all positive_integer ws2"
    and "wc \<noteq> dcol" and "ecol \<noteq> Some wc"
  shows "fst (fit env self (set_weights wc ws1 df) dcol ecol (Some wc) sp)
           = fst (fit env self (set_weights wc ws2 df) dcol ecol (Some wc) sp)
       \<and> cumulative_hazards (fst (snd (fit env self (set_weights wc ws1 df) dcol ecol (Some wc) sp)))
           = cumulative_hazards (fst (snd (fit env self (set_weights wc ws2 df) dcol ecol (Some wc) sp)))
       \<and> cumulative_variance (fst (snd (fit env self (set_weights wc ws1 df) dcol ecol (Some wc) sp)))
           = cumulative_variance (fst (snd (fit env self (set_weights wc ws2 df) dcol ecol (Some wc) sp)))
       \<and> snd (snd (fit env self (set_weights wc ws1 df) dcol ecol (Some wc) sp))
           = snd (snd (fit env self (set_weights wc ws2 df) dcol ecol (Some wc) sp))"
proof -
  let ?self1 = "begin_fit env self df dcol ecol (Some wc)"
  let ?p = "row_order dcol df"
  have b: "begin_fit env self (set_weights wc ws df) dcol ecol (Some wc) = ?self1" for ws
    by (simp add: begin_fit_def nrows_set_weights)
  have ok: "check_weights ?self1 (map (\<lambda>i. ws ! i) ?p) = None"
    if "list_all positive_integer ws" "length ws = nrows df" for ws
    using that set_row_order(1) [OF assms(1), of dcol]
    by (intro check_weights_positive_integers list_all_reordered) simp_all
  have nf: "preprocess_dataframe ?self1 (set_weights wc ws df) =
     (case sort_values dcol df of Inl e \<Rightarrow> Inl e | Inr df1 \<Rightarrow>
      case pop dcol df1 of Inl e \<Rightarrow> Inl e | Inr (T, df2) \<Rightarrow>
      case pop_or_ones ecol df2 of Inl e \<Rightarrow> Inl e | Inr (E, df3) \<Rightarrow>
      if \<not> has_column wc df3 then Inl (KeyError wc) else
      case check_values (df3\<lparr>cols := filter (\<lambda>c. cname c \<noteq> wc) (cols df3)\<rparr>) T E of
        Some e \<Rightarrow> Inl e | None \<Rightarrow>
      case add_baseline ?self1 (df3\<lparr>cols := filter (\<lambda>c. cname c \<noteq> wc) (cols df3)\<rparr>) of
        Inl e \<Rightarrow> Inl e | Inr df5 \<Rightarrow>
      Inr (to_design df5, map fin_val T, map astype_bool E, map (\<lambda>i. ws ! i) ?p))"
    if "list_all positive_integer ws" "length ws = nrows df" for ws
    by (subst preprocess_set_weights [of _ dcol wc])
       (simp_all add: begin_fit_fields assms(6,7) ok [OF that] split: sum.splits prod.splits)
  have "(\<exists>e. preprocess_dataframe ?self1 (set_weights wc ws1 df) = Inl e
            \<and> preprocess_dataframe ?self1 (set_weights wc ws2 df) = Inl e)
      \<or> (\<exists>Xf T E W1 W2. preprocess_dataframe ?self1 (set_weights wc ws1 df) = Inr (Xf, T, E, W1)
            \<and> preprocess_dataframe ?self1 (set_weights wc ws2 df) = Inr (Xf, T, E, W2))"
    unfolding nf [OF assms(4) assms(2)] nf [OF assms(5) assms(3)]
    by (simp split: sum.splits prod.splits option.splits)
  then show ?thesis
  proof
    assume "\<exists>e. preprocess_dataframe ?self1 (set_weights wc ws1 df) = Inl e
            \<and> preprocess_dataframe ?self1 (set_weights wc ws2 df) = Inl e"
    then show ?thesis by (auto simp: fit_def Let_def b)
  next
    assume "\<exists>Xf T E W1 W2. preprocess_dataframe ?self1 (set_weights wc ws1 df) = Inr (Xf, T, E, W1)
            \<and> preprocess_dataframe ?self1 (set_weights wc ws2 df) = Inr (Xf, T, E, W2)"
    then obtain Xf T E W1 W2 where
      "preprocess_dataframe ?self1 (set_weights wc ws1 df) = Inr (Xf, T, E, W1)"
      "preprocess_dataframe ?self1 (set_weights wc ws2 df) = Inr (Xf, T, E, W2)" by blast
    with fit_arrays_weights [of env ?self1 Xf T E W1 sp W2] show ?thesis
      by (simp add: fit_def Let_def b)
  qed
qed

theorem weights_do_not_change_the_fit_witness:
  "well_formed weighted_frame
   \<and> list_all positive_integer unit_weights \<and> list_all positive_integer other_weights
   \<and> fst (fit_weighted unit_weights) = fst (fit_weighted other_weights)
   \<and> cumulative_hazards (fst (snd (fit_weighted unit_weights)))
       = cumulative_hazards (fst (snd (fit_weighted other_weights)))
   \<and> cumulative_variance (fst (snd (fit_weighted unit_weights)))
       = cumulative_variance (fst (snd (fit_weighted other_weights)))"
proof -
  have "fst (fit_weighted unit_weights) = fst (fit_weighted other_weights)
     \<and> cumulative_hazards (fst (snd (fit_weighted unit_weights)))
         = cumulative_hazards (fst (snd (fit_weighted other_weights)))
     \<and> cumulative_variance (fst (snd (fit_weighted unit_weights)))
         = cumulative_variance (fst (snd (fit_weighted other_weights)))
     \<and> snd (snd (fit_weighted unit_weights)) = snd (snd (fit_weighted other_weights))"
    unfolding fit_weighted_def
    by (rule weights_do_not_change_the_fit [OF weighted_frame_facts(1) _ _ integer_weights_facts(1,2)])
       (simp_all add: weighted_frame_facts integer_weights_facts)
  with weighted_frame_facts(1) integer_weights_facts(1,2) show ?thesis by simp
qed


section \<open>What a failing call has already changed\<close>

text \<open>
  C8, as amended. When \<^verbatim>\<open>fit\<close> raises a ValueError, an AssertionError or a data-quality
  error (and \<^verbatim>\<open>normalize\<close> answers with the columns it was given), the exception comes from
  preprocessing, before any numeric work and with nothing
  warned or printed; by then \<^verbatim>\<open>fit\<close> has assigned \<^verbatim>\<open>_time_fit_was_called\<close>, \<^verbatim>\<open>duration_col\<close>,
  \<^verbatim>\<open>event_col\<close>, \<^verbatim>\<open>weights_col\<close> and \<^verbatim>\<open>_n_examples\<close>, and every other attribute is as it was
  before the call. At construction an alpha outside (0, 1] or a negative penalizer raises
  after the four parameters have been assigned, and no fitter is returned.
\<close>

theorem input_error_leaves_fitted_state:
  "(keeps_names env \<and> fit env self df dcol ecol wcol sp = (Some e, self', evs) \<and> input_error e \<longrightarrow>
      preprocess_dataframe (begin_fit env self df dcol ecol wcol) df = Inl e
      \<and> self' = self\<lparr>time_fit_was_called := Some (env_utcnow env), duration_col := Some dcol,
                  event_col := ecol, weights_col := wcol, n_examples := Some (nrows df)\<rparr>
      \<and> evs = [])
   \<and> (\<not> (0 < a \<and> a \<le> 1) \<or> cp < 0 \<or> pp < 0 \<longrightarrow>
        (\<exists>e'. init obj fi a cp pp
                = (Some e', obj\<lparr>fit_intercept := fi, alpha := a, coef_penalizer := cp,
                                smoothing_penalizer := pp\<rparr>)
            \<and> new_fitter fi a cp pp = Inl e'))"
proof (rule conjI)
  show "keeps_names env \<and> fit env self df dcol ecol wcol sp = (Some e, self', evs) \<and> input_error e \<longrightarrow>
      preprocess_dataframe (begin_fit env self df dcol ecol wcol) df = Inl e
      \<and> self' = self\<lparr>time_fit_was_called := Some (env_utcnow env), duration_col := Some dcol,
                  event_col := ecol, weights_col := wcol, n_examples := Some (nrows df)\<rparr>
      \<and> evs = []"
  proof (rule impI)
    assume h: "keeps_names env \<and> fit env self df dcol ecol wcol sp = (Some e, self', evs) \<and> input_error e"
    show "preprocess_dataframe (begin_fit env self df dcol ecol wcol) df = Inl e
        \<and> self' = self\<lparr>time_fit_was_called := Some (env_utcnow env), duration_col := Some dcol,
                    event_col := ecol, weights_col := wcol, n_examples := Some (nrows df)\<rparr>
        \<and> evs = []"
    proof (cases "preprocess_dataframe (begin_fit env self df dcol ecol wcol) df")
      case (Inl e')
      with h show ?thesis by (auto simp: fit_def Let_def begin_fit_def)
    next
      case (Inr q)
      obtain Xf T E W where "q = (Xf, T, E, W)" by (cases q)
      with h Inr
      have "fit_arrays env (begin_fit env self df dcol ecol wcol) Xf T E W sp = (Some e, self', evs)"
        by (simp add: fit_def Let_def)
      moreover have "one_baseline (begin_fit env self df dcol ecol wcol) (names Xf)"
        using Inr \<open>q = (Xf, T, E, W)\<close> by (auto intro: preprocess_names)
      ultimately show ?thesis using fit_arrays_error h by blast
    qed
  qed
  show "\<not> (0 < a \<and> a \<le> 1) \<or> cp < 0 \<or> pp < 0 \<longrightarrow>
        (\<exists>e'. init obj fi a cp pp
                = (Some e', obj\<lparr>fit_intercept := fi, alpha := a, coef_penalizer := cp,
                                smoothing_penalizer := pp\<rparr>)
            \<and> new_fitter fi a cp pp = Inl e')"
    by (auto simp: init_def new_fitter_def Let_def)
qed

theorem input_error_leaves_fitted_state_witness:
  "fit_weighted zero_weights
     = (Some (ValueError ''values in weight column w must be positive.''),
        fst (snd (fit_weighted zero_weights)), snd (snd (fit_weighted zero_weights)))
   \<and> input_error (ValueError ''values in weight column w must be positive.'')
   \<and> keeps_names example_env
   \<and> fst (snd (fit_weighted zero_weights))
       = default_fitter\<lparr>time_fit_was_called := Some (env_utcnow example_env),
           duration_col := Some ''T'', event_col := Some ''E'', weights_col := Some ''w'',
           n_examples := Some (nrows (set_weights ''w'' zero_weights weighted_frame))\<rparr>
   \<and> snd (snd (fit_weighted zero_weights)) = []
   \<and> \<not> (0 < (2::real) \<and> (2::real) \<le> 1)
   \<and> new_fitter True 2 0 0 = Inl (ValueError ''alpha parameter must be between 0 and 1.'')"
proof -
  let ?e = "ValueError ''values in weight column w must be positive.''"
  have f: "fst (fit_weighted zero_weights) = Some ?e"
    by (simp add: fit_weighted_def fit_def Let_def preprocess_zero)
  then have run: "fit example_env default_fitter (set_weights ''w'' zero_weights weighted_frame)
         ''T'' (Some ''E'') (Some ''w'') False
       = (Some ?e, fst (snd (fit_weighted zero_weights)), snd (snd (fit_weighted zero_weights)))"
    unfolding fit_weighted_def [symmetric] by (simp add: prod_eq_iff)
  have ie: "input_error ?e" by (simp add: input_error_def)
  have kn: "keeps_names example_env"
    by (simp add: keeps_names_def example_env_def plain_normalize_def)
  note t = input_error_leaves_fitted_state
    [of example_env default_fitter "set_weights ''w'' zero_weights weighted_frame" "''T''"
        "Some ''E''" "Some ''w''" False ?e "fst (snd (fit_weighted zero_weights))"
        "snd (snd (fit_weighted zero_weights))" 2 0 0 blank True]
  from t run ie kn have st:
    "fst (snd (fit_weighted zero_weights))
       = default_fitter\<lparr>time_fit_was_called := Some (env_utcnow example_env),
           duration_col := Some ''T'', event_col := Some ''E'', weights_col := Some ''w'',
           n_examples := Some (nrows (set_weights ''w'' zero_weights weighted_frame))\<rparr>"
    "snd (snd (fit_weighted zero_weights)) = []" by blast+
  from t obtain e' where
    "init blank True 2 0 0
       = (Some e', blank\<lparr>fit_intercept := True, alpha := 2, coef_penalizer := 0,
                         smoothing_penalizer := 0\<rparr>)"
    "new_fitter True 2 0 0 = Inl e'" by auto
  then have nf: "new_fitter True 2 0 0 = Inl (ValueError ''alpha parameter must be between 0 and 1.'')"
    by (simp add: init_def)
  have full: "fit_weighted zero_weights
     = (Some ?e, fst (snd (fit_weighted zero_weights)), snd (snd (fit_weighted zero_weights)))"
    using f by (simp add: prod_eq_iff)
  from full ie kn st nf show ?thesis by simp
qed

text \<open>
  C8 as stated fails: with a zero weight \<^verbatim>\<open>fit\<close> raises ValueError, and the fitter, which had
  no \<^verbatim>\<open>duration_col\<close>, now has one; and \<^verbatim>\<open>__init__\<close> called on a fitter with alpha 2 raises
  after having stored the 2.
\<close>

theorem fitter_changed_before_the_check_counterexample:
  "fst (fit_weighted zero_weights)
     = Some (ValueError ''values in weight column w must be positive.'')
   \<and> duration_col default_fitter = None
   \<and> duration_col (fst (snd (fit_weighted zero_weights))) = Some ''T''
   \<and> weights_col (fst (snd (fit_weighted zero_weights))) = Some ''w''
   \<and> n_examples (fst (snd (fit_weighted zero_weights))) = Some 4
   \<and> fst (snd (fit_weighted zero_weights)) \<noteq> default_fitter
   \<and> fst (init default_fitter True 2 0 0)
       = Some (ValueError ''alpha parameter must be between 0 and 1.'')
   \<and> alpha default_fitter = 95 / 100
   \<and> alpha (snd (init default_fitter True 2 0 0)) = 2"
proof -
  have f: "fit_weighted zero_weights
       = (Some (ValueError ''values in weight column w must be positive.''),
          begin_fit example_env default_fitter (set_weights ''w'' zero_weights weighted_frame)
             ''T'' (Some ''E'') (Some ''w''), [])"
    by (simp add: fit_weighted_def fit_def Let_def preprocess_zero)
  have d: "duration_col default_fitter = None" "alpha default_fitter = 95 / 100"
    by (simp_all add: default_fitter_def blank_def)
  have b: "duration_col (begin_fit example_env default_fitter (set_weights ''w'' zero_weights weighted_frame)
             ''T'' (Some ''E'') (Some ''w'')) = Some ''T''"
    "weights_col (begin_fit example_env default_fitter (set_weights ''w'' zero_weights weighted_frame)
             ''T'' (Some ''E'') (Some ''w'')) = Some ''w''"
    "n_examples (begin_fit example_env default_fitter (set_weights ''w'' zero_weights weighted_frame)
             ''T'' (Some ''E'') (Some ''w'')) = Some 4"
    by (simp_all add: begin_fit_def nrows_set_weights weighted_frame_facts)
  have ne: "begin_fit example_env default_fitter (set_weights ''w'' zero_weights weighted_frame)
             ''T'' (Some ''E'') (Some ''w'') \<noteq> default_fitter"
    using b(1) d(1) by auto
  have i: "fst (init default_fitter True 2 0 0)
       = Some (ValueError ''alpha parameter must be between 0 and 1.'')"
    "alpha (snd (init default_fitter True 2 0 0)) = 2"
    by (simp_all add: init_def)
  show ?thesis by (simp add: f b d ne i)
qed

end
